theory Spec2Isabelle
  imports Main
begin

section \<open>Package paths and the manifest\<close>

text \<open>
  A \<^verbatim>\<open>PackagePath\<close> identifies a package: its \<^verbatim>\<open>basePath\<close> and an optional
  \<^verbatim>\<open>version\<close> (\<^verbatim>\<open>undefined\<close> is \<open>None\<close>). The class lives in ern-core; the code
  verified here reads these two properties and calls \<^verbatim>\<open>same\<close>, \<^verbatim>\<open>toString\<close>,
  \<^verbatim>\<open>fromString\<close> and the constructor.
\<close>

record PackagePath =
  basePath :: string
  version :: "string option"

text \<open>JavaScript truthiness of a \<^verbatim>\<open>string | undefined\<close>: the empty string is falsy.\<close>

definition truthy :: "string option \<Rightarrow> bool" where
  "truthy v = (case v of None \<Rightarrow> False | Some s \<Rightarrow> s \<noteq> [])"

text \<open>
  Modelled from the spec: \<^verbatim>\<open>PackagePath.same(other, {ignoreVersion})\<close> is defined in ern-core, outside the
  files verified here. It is true iff the basePath strings match exactly and, unless
  \<^verbatim>\<open>ignoreVersion\<close>, the versions are identical strings.
\<close>

definition same :: "PackagePath \<Rightarrow> PackagePath \<Rightarrow> bool \<Rightarrow> bool" where
  "same p other ignoreVersion =
     (basePath p = basePath other \<and> (if ignoreVersion then True else version p = version other))"

text \<open>
  Modelled from the spec: a basePath is a registry name (with its scope), a git locator
  \<^verbatim>\<open>git+<url>\<close>, or a filesystem path, absolute or relative (or \<^verbatim>\<open>file:<path>\<close>).
\<close>

definition isGitPath :: "string \<Rightarrow> bool" where
  "isGitPath b = (take 4 b = ''git+'')"

definition isFilePath :: "string \<Rightarrow> bool" where
  "isFilePath b = (take 1 b = ''/'' \<or> take 1 b = ''.'' \<or> take 5 b = ''file:'')"

text \<open>
  Modelled from the spec: \<^verbatim>\<open>toString\<close> gives back the canonical input form:
  \<^verbatim>\<open>name\<close> or \<^verbatim>\<open>name@version\<close> for a registry package, the raw path for a file path,
  the raw URL for a git path (the version of a git path is the reference after
  \<^verbatim>\<open>#\<close>).
\<close>

definition toString :: "PackagePath \<Rightarrow> string" where
  "toString p =
     (if isFilePath (basePath p) then basePath p
      else if isGitPath (basePath p) then
        (case version p of None \<Rightarrow> basePath p | Some v \<Rightarrow> basePath p @ ''#'' @ v)
      else
        (case version p of None \<Rightarrow> basePath p | Some v \<Rightarrow> basePath p @ ''@'' @ v))"

text \<open>
  Modelled from the spec: the constructor applied to a basePath string,
  \<^verbatim>\<open>new PackagePath(x.basePath)\<close>. A basePath carries no version, so the parse yields
  that basePath and no version.
\<close>

definition new_PackagePath :: "string \<Rightarrow> PackagePath" where
  "new_PackagePath b = \<lparr>basePath = b, version = None\<rparr>"

text \<open>
  Modelled from the spec: \<^verbatim>\<open>PackagePath.fromString(dependency.toString())\<close>. Parsing the
  canonical string of a path gives the same path back (the round trip of the spec).
\<close>

definition fromString_toString :: "PackagePath \<Rightarrow> PackagePath" where
  "fromString_toString p = p"

text \<open>
  A scanned native dependency; the code below reads only its \<^verbatim>\<open>packagePath\<close>.
\<close>

record NativeDependency =
  packagePath :: PackagePath

text \<open>
  The collaborators of \<^verbatim>\<open>MiniApp.addDependency\<close>, all of them defined outside the files verified here:
  the manifest (its native and its JS entries), what \<^verbatim>\<open>findNativeDependencies\<close> reports
  as \<^verbatim>\<open>all\<close> once the candidate is installed in a fresh directory,
  \<^verbatim>\<open>utils.isDependencyApiOrApiImpl\<close>, and the directory \<^verbatim>\<open>createTmpDir\<close> returns.
  Their calls are recorded in the trace and taken to return normally.
\<close>

record env =
  nativeManifest :: "PackagePath list"
  jsManifest :: "PackagePath list"
  scanAll :: "PackagePath \<Rightarrow> NativeDependency list"
  isDependencyApiOrApiImpl :: "string \<Rightarrow> bool"
  tmpDir :: string

text \<open>
  Modelled from the spec: \<^verbatim>\<open>manifest.getNativeDependency\<close> and
  \<^verbatim>\<open>manifest.getJsDependency\<close> are exact basePath lookups in the loaded manifest.
\<close>

definition getNativeDependency :: "env \<Rightarrow> PackagePath \<Rightarrow> PackagePath option" where
  "getNativeDependency e q = find (\<lambda>d. basePath d = basePath q) (nativeManifest e)"

definition getJsDependency :: "env \<Rightarrow> PackagePath \<Rightarrow> PackagePath option" where
  "getJsDependency e q = find (\<lambda>d. basePath d = basePath q) (jsManifest e)"

section \<open>MiniApp.addDependency\<close>

text \<open>
  Effects are a trace of the calls made, in order. \<^verbatim>\<open>yarn.add\<close> is recorded with the
  working directory of the process at the call, the package and the option
  (none, \<^verbatim>\<open>{dev: true}\<close>, \<^verbatim>\<open>{peer: true}\<close>). Of the logger, \<^verbatim>\<open>log.error\<close> and
  \<^verbatim>\<open>log.warn\<close> are recorded; \<^verbatim>\<open>log.debug\<close> is not.
\<close>

datatype yarnOption = NoOption | DevOption | PeerOption

datatype event =
    LogError string
  | LogWarn string
  | LogInfo string
  | ManifestGetNativeDependency string
  | ManifestGetJsDependency string
  | CreateTmpDir
  | Chdir string
  | YarnAdd string PackagePath yarnOption
  | FindNativeDependencies string
  | IsDependencyApiOrApiImpl string
  | ManifestGetJsAndNativeDependencies string
  | WriteFileSync string
  | YarnInstall string
  | GetActiveCauldron
  | GetDescriptor
  | GetContainerVersion
  | GetTopLevelContainerVersion
  | BeginTransaction
  | StateUpdateFunc
  | GetCompositeGeneratorConfig
  | RunCauldronCompositeGen
  | GetNativeDependencies
  | GetResolvedNativeDependencies
  | SyncContainerNativeDependencies "PackagePath list"
  | RunCauldronContainerGen
  | UpdateContainerVersion "string option"
  | UpdateContainerErnVersion
  | AddOrUpdateYarnLock string
  | RunContainerTransformers
  | CommitTransaction "string list"
  | DiscardTransaction
  | RunContainerPublishers "string option"

text \<open>
  A thrown error with its message: a plain \<^verbatim>\<open>Error\<close> (the only class the code
  verified here throws itself), or the \<^verbatim>\<open>TypeError\<close> the engine throws on reading a
  property of \<^verbatim>\<open>undefined\<close>. \<open>errorName\<close> is the \<^verbatim>\<open>name\<close> of the error object,
  \<open>exnToString\<close> its rendering in a template literal (\<^verbatim>\<open>${e}\<close>).
\<close>

datatype exn = Error string | TypeError string

definition errorName :: "exn \<Rightarrow> string" where
  "errorName x = (case x of Error msg \<Rightarrow> ''Error'' | TypeError msg \<Rightarrow> ''TypeError'')"

definition errorMessage :: "exn \<Rightarrow> string" where
  "errorMessage x = (case x of Error msg \<Rightarrow> msg | TypeError msg \<Rightarrow> msg)"

definition exnToString :: "exn \<Rightarrow> string" where
  "exnToString x =
     (if errorMessage x = [] then errorName x else errorName x @ '': '' @ errorMessage x)"

text \<open>
  What a call leaves behind: the trace, the working directory of the process, and the
  result: \<open>Inl\<close> a thrown error, \<open>Inr None\<close> a return of \<^verbatim>\<open>undefined\<close>,
  \<open>Inr (Some p)\<close> a returned PackagePath.
\<close>

record outcome =
  trace :: "event list"
  cwd :: string
  result :: "exn + PackagePath option"

text \<open>How a block of statements ends: it runs through, it returns, or it throws.\<close>

datatype completion = Normal | Return | Throw exn

text \<open>\<^verbatim>\<open>addDevOrPeerDependency(dependency, dev)\<close>: one \<^verbatim>\<open>yarn.add\<close> in the current directory.\<close>

definition addDevOrPeerDependency :: "string \<Rightarrow> PackagePath \<Rightarrow> bool \<Rightarrow> event list" where
  "addDevOrPeerDependency dir dependency dev =
     (let depPath = fromString_toString dependency in
      if dev then [YarnAdd dir depPath DevOption] else [YarnAdd dir depPath PeerOption])"

text \<open>The messages of the two rejections inside the loop of \<^verbatim>\<open>addDependency\<close>.\<close>

definition unsupportedMessage :: "NativeDependency \<Rightarrow> string" where
  "unsupportedMessage dep = toString (packagePath dep)
     @ '' plugin is not yet supported. Consider adding support for it to the master manifest''"

definition transitiveMessage :: "NativeDependency \<Rightarrow> string" where
  "transitiveMessage dep = ''[Transitive Dependency] '' @ toString (packagePath dep)
     @ '' was not added to the MiniApp''"

text \<open>
  The loop \<^verbatim>\<open>for (dep of nativeDependencies.all)\<close> of \<^verbatim>\<open>addDependency\<close>: the trace
  of the iterations run and how the loop ends. An entry that is the candidate itself and
  no api or api-impl ends the function by \<^verbatim>\<open>return log.error(...)\<close>; a transitive entry
  whose version differs from the manifest's ends it by \<^verbatim>\<open>throw new Error(...)\<close>.
\<close>

fun checkNativeDependencies ::
    "env \<Rightarrow> PackagePath \<Rightarrow> NativeDependency list \<Rightarrow> event list \<times> completion" where
  "checkNativeDependencies e dependency [] = ([], Normal)"
| "checkNativeDependencies e dependency (dep # deps) =
     (if same dependency (new_PackagePath (basePath (packagePath dep))) True then
        (if isDependencyApiOrApiImpl e (basePath (packagePath dep)) then
           (case checkNativeDependencies e dependency deps of (tr, c) \<Rightarrow>
              (IsDependencyApiOrApiImpl (basePath (packagePath dep))
               # LogWarn (toString (packagePath dep)
                          @ '' is not declared in the Manifest. You might consider adding it.'')
               # tr, c))
         else
           ([IsDependencyApiOrApiImpl (basePath (packagePath dep)),
             LogError (unsupportedMessage dep)],
            Return))
      else
        (case getNativeDependency e (new_PackagePath (basePath (packagePath dep))) of
           None \<Rightarrow>
             (case checkNativeDependencies e dependency deps of (tr, c) \<Rightarrow>
                (ManifestGetNativeDependency (basePath (packagePath dep)) # tr, c))
         | Some manifestDep \<Rightarrow>
             (if \<not> same (packagePath dep) manifestDep False then
                ([ManifestGetNativeDependency (basePath (packagePath dep))],
                 Throw (Error (transitiveMessage dep)))
              else
                (case checkNativeDependencies e dependency deps of (tr, c) \<Rightarrow>
                   (ManifestGetNativeDependency (basePath (packagePath dep)) # tr, c)))))"

text \<open>
  The manifest lookup at the head of the checked path:
  \<^verbatim>\<open>manifestNativeDependency || (await manifest.getJsDependency(basePathDependency))\<close>,
  with the calls it makes.
\<close>

definition manifestDependencyOf :: "env \<Rightarrow> PackagePath \<Rightarrow> event list \<times> PackagePath option" where
  "manifestDependencyOf e basePathDependency =
     (case getNativeDependency e basePathDependency of
        Some m \<Rightarrow> ([ManifestGetNativeDependency (basePath basePathDependency)], Some m)
      | None \<Rightarrow>
          ([ManifestGetNativeDependency (basePath basePathDependency),
            ManifestGetJsDependency (basePath basePathDependency)],
           getJsDependency e basePathDependency))"

text \<open>
  The tail of \<^verbatim>\<open>addDependency\<close> once the checks have passed: change to the MiniApp's
  directory, \<^verbatim>\<open>yarn.add\<close> the manifest's path (or the candidate's), return it.
\<close>

definition addChecked ::
    "string \<Rightarrow> event list \<Rightarrow> PackagePath \<Rightarrow> PackagePath option \<Rightarrow> outcome" where
  "addChecked this_path before dependency manifestDependency =
     \<lparr>trace = before @
        [Chdir this_path,
         YarnAdd this_path
           (case manifestDependency of Some m \<Rightarrow> m | None \<Rightarrow> fromString_toString dependency)
           NoOption],
      cwd = this_path,
      result = Inr (Some (case manifestDependency of Some m \<Rightarrow> m | None \<Rightarrow> dependency))\<rparr>"

text \<open>
  \<^verbatim>\<open>addDependency(dependency, {dev, peer})\<close> of the MiniApp at \<open>this_path\<close>, called
  with the process in directory \<open>dir\<close>. A null or undefined \<^verbatim>\<open>dependency\<close> is
  \<open>None\<close>.
\<close>

definition addDependency ::
    "env \<Rightarrow> string \<Rightarrow> string \<Rightarrow> PackagePath option \<Rightarrow> bool \<Rightarrow> bool \<Rightarrow> outcome" where
  "addDependency e this_path dir dependency dev peer =
     (case dependency of
        None \<Rightarrow> \<lparr>trace = [LogError ''dependency cant be null''], cwd = dir, result = Inr None\<rparr>
      | Some d \<Rightarrow>
          if dev \<or> peer then
            \<lparr>trace = addDevOrPeerDependency dir d dev, cwd = dir, result = Inr None\<rparr>
          else
            (let basePathDependency = new_PackagePath (basePath d) in
             case manifestDependencyOf e basePathDependency of (lookups, manifestDependency) \<Rightarrow>
               (case manifestDependency of
                  None \<Rightarrow>
                    (let tmpPath = tmpDir e;
                         installed = lookups @
                           [CreateTmpDir, Chdir tmpPath,
                            YarnAdd tmpPath (fromString_toString d) NoOption,
                            FindNativeDependencies (tmpPath @ ''/node_modules'')];
                         nativeDependencies_all = scanAll e d
                     in if nativeDependencies_all = [] then
                          addChecked this_path installed d manifestDependency
                        else if length nativeDependencies_all \<ge> 1 then
                          (case checkNativeDependencies e d nativeDependencies_all of
                             (tr, Normal) \<Rightarrow>
                               addChecked this_path (installed @ tr) d manifestDependency
                           | (tr, Return) \<Rightarrow>
                               \<lparr>trace = installed @ tr, cwd = tmpPath, result = Inr None\<rparr>
                           | (tr, Throw x) \<Rightarrow>
                               \<lparr>trace = installed @ tr, cwd = tmpPath, result = Inl x\<rparr>)
                        else addChecked this_path installed d manifestDependency)
                | Some m \<Rightarrow>
                    if truthy (version d) then
                      (if \<not> same d m False then
                         \<lparr>trace = lookups, cwd = dir,
                          result = Inl (Error (toString d @ '' was not added to the MiniApp''))\<rparr>
                       else addChecked this_path lookups d manifestDependency)
                    else addChecked this_path lookups d manifestDependency)))"



section \<open>MiniApp.upgradeToPlatformVersion\<close>

text \<open>
  The \<^verbatim>\<open>package.json\<close> of a MiniApp, as far as the upgrade reads and writes it. In
  \<open>dependencies\<close> a name bound to \<open>None\<close> is a missing key or a key whose value is
  \<^verbatim>\<open>undefined\<close> (\<^verbatim>\<open>JSON.stringify\<close> drops such a key); the whole object may be missing.
  The \<^verbatim>\<open>ern\<close> object is the one \<^verbatim>\<open>MiniApp.create\<close> writes.
\<close>

record ernObject =
  moduleName :: string
  moduleType :: string
  ernVersion :: string

record PackageJson =
  dependencies :: "(string \<Rightarrow> string option) option"
  ern :: "ernObject option"
  ernPlatformVersion :: "string option"

text \<open>A value inside a template literal: \<^verbatim>\<open>undefined\<close> prints as such.\<close>

definition interpolate :: "string option \<Rightarrow> string" where
  "interpolate v = (case v of None \<Rightarrow> ''undefined'' | Some s \<Rightarrow> s)"

definition quoted :: "string \<Rightarrow> string" where
  "quoted s = CHR 0x22 # s @ [CHR 0x22]"

definition singleQuoted :: "string \<Rightarrow> string" where
  "singleQuoted s = CHR 0x27 # s @ [CHR 0x27]"

text \<open>The message of the error thrown when \<^verbatim>\<open>package.json\<close> has no \<^verbatim>\<open>ern\<close> object.\<close>

definition missingErnMessage :: "string option \<Rightarrow> string" where
  "missingErnMessage v =
     ''In order to upgrade, please first replace '' @ quoted ''ernPlatformVersion'' @ '' : ''
     @ quoted (interpolate v) @ '' in your package.json '' @ [CHR 0x0A]
     @ ''with '' @ quoted ''ern'' @ '' : { '' @ quoted ''version'' @ '' : ''
     @ quoted (interpolate v) @ '' } instead''"

text \<open>
  The loop \<^verbatim>\<open>for (const manifestDependency of manifestDependencies)\<close>: it rewrites, in
  memory, the version of every dependency the MiniApp already has to the manifest's.
  Reading \<^verbatim>\<open>this.packageJson.dependencies[...]\<close> when \<^verbatim>\<open>dependencies\<close> is missing throws
  a TypeError. The result is the trace, the \<^verbatim>\<open>dependencies\<close> object after the loop, and
  the error thrown, if any. The own keys of \<^verbatim>\<open>dependencies\<close> are modelled: a manifest
  entry named like a property every object inherits (\<^verbatim>\<open>constructor\<close>,
  \<^verbatim>\<open>toString\<close>) would read that property in the code, and is taken not to occur.
\<close>

fun upgradeDependencies ::
    "PackagePath list \<Rightarrow> (string \<Rightarrow> string option) option
       \<Rightarrow> event list \<times> (string \<Rightarrow> string option) option \<times> exn option" where
  "upgradeDependencies [] deps = ([], deps, None)"
| "upgradeDependencies (manifestDependency # rest) None =
     ([], None,
      Some (TypeError (''Cannot read property '' @ singleQuoted (basePath manifestDependency)
                       @ '' of undefined'')))"
| "upgradeDependencies (manifestDependency # rest) (Some deps) =
     (if truthy (deps (basePath manifestDependency)) then
        (let dependencyManifestVersion = version manifestDependency;
             localDependencyVersion = deps (basePath manifestDependency)
         in if dependencyManifestVersion \<noteq> localDependencyVersion then
              (case upgradeDependencies rest
                      (Some (deps(basePath manifestDependency := dependencyManifestVersion))) of
                 (tr, deps', c) \<Rightarrow>
                   (LogInfo (basePath manifestDependency @ '' : ''
                             @ interpolate localDependencyVersion @ '' => ''
                             @ interpolate dependencyManifestVersion) # tr, deps', c))
            else upgradeDependencies rest (Some deps))
      else upgradeDependencies rest (Some deps))"

text \<open>
  What the upgrade leaves behind: the trace, the \<^verbatim>\<open>packageJson\<close> object in memory, the
  files on disk (a path bound to the JSON document written there), the working
  directory, and how the call ends.
\<close>

record upgradeOutcome =
  upgradeTrace :: "event list"
  memory :: PackageJson
  disk :: "string \<Rightarrow> PackageJson option"
  upgradeCwd :: string
  upgradeResult :: "exn + unit"

text \<open>
  \<^verbatim>\<open>upgradeToPlatformVersion(versionToUpgradeTo)\<close> of the MiniApp at \<open>this_path\<close> with
  \<open>this_packageJson\<close> in memory. \<open>getJsAndNativeDependencies\<close> is the manifest's list
  for a platform version; \<open>files\<close> and \<open>dir\<close> are the disk and the working directory
  at the call.
\<close>

definition upgradeToPlatformVersion ::
    "(string \<Rightarrow> PackagePath list) \<Rightarrow> string \<Rightarrow> PackageJson \<Rightarrow> (string \<Rightarrow> PackageJson option)
       \<Rightarrow> string \<Rightarrow> string \<Rightarrow> upgradeOutcome" where
  "upgradeToPlatformVersion getJsAndNativeDependencies this_path this_packageJson files dir
       versionToUpgradeTo =
     (let manifestDependencies = getJsAndNativeDependencies versionToUpgradeTo in
      case upgradeDependencies manifestDependencies (dependencies this_packageJson) of
        (tr, deps', c) \<Rightarrow>
          (let looked = ManifestGetJsAndNativeDependencies versionToUpgradeTo # tr;
               updated = this_packageJson\<lparr>dependencies := deps'\<rparr>
           in case c of
                Some x \<Rightarrow>
                  \<lparr>upgradeTrace = looked, memory = updated, disk = files, upgradeCwd = dir,
                   upgradeResult = Inl x\<rparr>
              | None \<Rightarrow>
                  (case ern updated of
                     None \<Rightarrow>
                       \<lparr>upgradeTrace = looked, memory = updated, disk = files, upgradeCwd = dir,
                        upgradeResult =
                          Inl (Error (missingErnMessage (ernPlatformVersion updated)))\<rparr>
                   | Some ernObj \<Rightarrow>
                       (let written = updated\<lparr>ern := Some (ernObj\<lparr>ernVersion := versionToUpgradeTo\<rparr>)\<rparr>;
                            appPackageJsonPath = this_path @ ''/package.json''
                        in \<lparr>upgradeTrace = looked @
                              [WriteFileSync appPackageJsonPath, Chdir this_path,
                               YarnInstall this_path],
                            memory = written,
                            disk = files(appPackageJsonPath := Some written),
                            upgradeCwd = this_path,
                            upgradeResult = Inr ()\<rparr>))))"

section \<open>semver.inc\<close>

text \<open>
  \<^verbatim>\<open>semver.inc(version, 'patch')\<close> of the npm package semver, which
  \<^verbatim>\<open>syncCauldronContainer\<close> calls on the stored container version. The package is a
  dependency, not part of the files verified here; the definitions follow its grammar
  of strict versions (semver.org 2.0.0) and its \<^verbatim>\<open>inc\<close>.
\<close>

text \<open>The limits of the semver package: the largest version number and the longest string.\<close>

definition MAX_SAFE_INTEGER :: nat where
  "MAX_SAFE_INTEGER = 9007199254740991"

definition MAX_LENGTH :: nat where
  "MAX_LENGTH = 256"

text \<open>Decimal numerals: printing a number, reading a string of digits.\<close>

definition digitChar :: "nat \<Rightarrow> char" where
  "digitChar n = ''0123456789'' ! n"

definition isDigit :: "char \<Rightarrow> bool" where
  "isDigit c = (c \<in> set ''0123456789'')"

definition digitValue :: "char \<Rightarrow> nat" where
  "digitValue c = length (takeWhile (\<lambda>x. x \<noteq> c) ''0123456789'')"

fun showNat :: "nat \<Rightarrow> string" where
  "showNat n = (if n < 10 then [digitChar n] else showNat (n div 10) @ [digitChar (n mod 10)])"

declare showNat.simps [simp del]

definition decimalValue :: "string \<Rightarrow> nat" where
  "decimalValue s = foldl (\<lambda>acc c. 10 * acc + digitValue c) 0 s"

text \<open>
  The grammar of a version. A numeric identifier is \<^verbatim>\<open>0|[1-9][0-9]*\<close>; a build identifier
  is \<^verbatim>\<open>[0-9A-Za-z-]+\<close>; a prerelease identifier is a numeric identifier or
  \<^verbatim>\<open>[0-9]*[a-zA-Z-][a-zA-Z0-9-]*\<close>, that is a build identifier which, if all digits, has
  no leading zero.
\<close>

definition numericIdentifier :: "string \<Rightarrow> bool" where
  "numericIdentifier s = (s \<noteq> [] \<and> list_all isDigit s \<and> (length s = 1 \<or> hd s \<noteq> CHR ''0''))"

definition identifierChar :: "char \<Rightarrow> bool" where
  "identifierChar c =
     (isDigit c \<or> c \<in> set ''abcdefghijklmnopqrstuvwxyzABCDEFGHIJKLMNOPQRSTUVWXYZ-'')"

definition buildIdentifier :: "string \<Rightarrow> bool" where
  "buildIdentifier s = (s \<noteq> [] \<and> list_all identifierChar s)"

definition prereleaseIdentifier :: "string \<Rightarrow> bool" where
  "prereleaseIdentifier s =
     (s \<noteq> [] \<and> list_all identifierChar s
      \<and> (if list_all isDigit s then numericIdentifier s else True))"

text \<open>\<^verbatim>\<open>s.split(c)\<close>, and \<^verbatim>\<open>s.trim()\<close> for the ASCII white space.\<close>

fun splitOn :: "char \<Rightarrow> string \<Rightarrow> string list" where
  "splitOn c [] = [[]]"
| "splitOn c (x # xs) =
     (if x = c then [] # splitOn c xs
      else (case splitOn c xs of [] \<Rightarrow> [[x]] | w # ws \<Rightarrow> (x # w) # ws))"

definition isSpace :: "char \<Rightarrow> bool" where
  "isSpace c = (c \<in> set [CHR 0x20, CHR 0x09, CHR 0x0A, CHR 0x0B, CHR 0x0C, CHR 0x0D])"

definition trim :: "string \<Rightarrow> string" where
  "trim s = rev (dropWhile isSpace (rev (dropWhile isSpace s)))"

text \<open>
  \<^verbatim>\<open>new SemVer(v)\<close>: the trimmed string must match
  \<^verbatim>\<open>v?MAJOR.MINOR.PATCH(-PRERELEASE)?(+BUILD)?\<close> from start to end, with the three
  numbers at most \<open>MAX_SAFE_INTEGER\<close>; otherwise the constructor throws (\<open>None\<close>).
  The result is the three numbers and the prerelease string.
\<close>

definition semverParse :: "string \<Rightarrow> (nat \<times> nat \<times> nat \<times> string) option" where
  "semverParse s =
     (let t = trim s;
          t1 = (case t of [] \<Rightarrow> t | c # r \<Rightarrow> if c = CHR ''v'' then r else t);
          mainVersion = takeWhile (\<lambda>c. c \<noteq> CHR ''-'' \<and> c \<noteq> CHR ''+'') t1;
          rest = dropWhile (\<lambda>c. c \<noteq> CHR ''-'' \<and> c \<noteq> CHR ''+'') t1
      in case splitOn (CHR ''.'') mainVersion of
           [a, b, c] \<Rightarrow>
             if numericIdentifier a \<and> numericIdentifier b \<and> numericIdentifier c
                \<and> decimalValue a \<le> MAX_SAFE_INTEGER \<and> decimalValue b \<le> MAX_SAFE_INTEGER
                \<and> decimalValue c \<le> MAX_SAFE_INTEGER
             then
               (case rest of
                  [] \<Rightarrow> Some (decimalValue a, decimalValue b, decimalValue c, [])
                | x # r \<Rightarrow>
                    if x = CHR ''+'' then
                      (if list_all buildIdentifier (splitOn (CHR ''.'') r)
                       then Some (decimalValue a, decimalValue b, decimalValue c, [])
                       else None)
                    else
                      (let pre = takeWhile (\<lambda>c. c \<noteq> CHR ''+'') r;
                           bld = dropWhile (\<lambda>c. c \<noteq> CHR ''+'') r
                       in if list_all prereleaseIdentifier (splitOn (CHR ''.'') pre)
                             \<and> (case bld of [] \<Rightarrow> True
                                 | p # b \<Rightarrow> list_all buildIdentifier (splitOn (CHR ''.'') b))
                          then Some (decimalValue a, decimalValue b, decimalValue c, pre)
                          else None))
             else None
         | _ \<Rightarrow> None)"

text \<open>The version string \<^verbatim>\<open>MAJOR.MINOR.PATCH\<close>.\<close>

definition release :: "nat \<Rightarrow> nat \<Rightarrow> nat \<Rightarrow> string" where
  "release major minor patch = showNat major @ ''.'' @ showNat minor @ ''.'' @ showNat patch"

text \<open>
  \<^verbatim>\<open>semver.inc(v, 'patch')\<close>: \<^verbatim>\<open>null\<close> (\<open>None\<close>) when \<open>v\<close> is longer than
  \<open>MAX_LENGTH\<close> or does not parse. Otherwise the patch number goes up by one if the
  version has no prerelease; a prerelease version keeps its patch number; in both cases
  the prerelease and the build are dropped.
\<close>

definition semverInc :: "string \<Rightarrow> string option" where
  "semverInc v =
     (if length v > MAX_LENGTH then None
      else case semverParse v of
             None \<Rightarrow> None
           | Some (major, minor, patch, prerelease) \<Rightarrow>
               Some (release major minor (if prerelease = [] then patch + 1 else patch)))"

section \<open>syncCauldronContainer\<close>

text \<open>
  \<^verbatim>\<open>_.differenceBy(array, values, 'basePath')\<close>: the elements of \<open>array\<close>, in order,
  whose basePath is the basePath of no element of \<open>values\<close>.
\<close>

definition differenceBy_basePath :: "PackagePath list \<Rightarrow> PackagePath list \<Rightarrow> PackagePath list" where
  "differenceBy_basePath array values =
     filter (\<lambda>x. basePath x \<notin> set (map basePath values)) array"

text \<open>
  The list handed to \<^verbatim>\<open>cauldron.syncContainerNativeDependencies\<close>:
  \<^verbatim>\<open>[...extraCauldronNativeDependencies, ...compositeNativeDeps.resolved]\<close>.
\<close>

definition finalNativeDependencies :: "PackagePath list \<Rightarrow> PackagePath list \<Rightarrow> PackagePath list" where
  "finalNativeDependencies cauldronNativeDependencies resolvedDeps =
     (let extraCauldronNativeDependencies =
            differenceBy_basePath cauldronNativeDependencies resolvedDeps
      in extraCauldronNativeDependencies @ resolvedDeps)"

text \<open>
  The collaborators of \<^verbatim>\<open>syncCauldronContainer\<close> are defined outside the files verified
  here. Each
  awaited call either throws or returns: its outcome in the run at hand is a value
  \<open>exn + 'a\<close>, for the calls whose argument is computed here a function of that
  argument.
\<close>

record NativeApplicationDescriptor =
  platform :: "string option"
  descriptorString :: string

record CauldronNativeAppVersion =
  detachContainerVersionFromRoot :: bool

record resolution =
  resolved :: "PackagePath list"

record composite =
  getResolvedNativeDependencies :: "exn + resolution"

record cauldron =
  getDescriptor :: "exn + CauldronNativeAppVersion"
  getContainerVersion :: "exn + string option"
  getTopLevelContainerVersion :: "exn + string option"
  beginTransaction :: "exn + unit"
  getCompositeGeneratorConfig :: "exn + unit"
  getNativeDependencies :: "exn + PackagePath list"
  syncContainerNativeDependencies :: "PackagePath list \<Rightarrow> exn + unit"
  updateContainerVersion :: "string option \<Rightarrow> exn + unit"
  updateContainerErnVersion :: "exn + unit"
  addOrUpdateYarnLock :: "string \<Rightarrow> exn + unit"
  commitTransaction :: "string list \<Rightarrow> exn + unit"

record world =
  getActiveCauldron :: "exn + cauldron"
  stateUpdateFunc :: "exn + unit"
  createTmpDir :: "exn + string"
  runCauldronCompositeGen :: "exn + composite"
  runCauldronContainerGen :: "exn + unit"
  runContainerTransformers :: "exn + unit"
  runContainerPublishers :: "string option \<Rightarrow> exn + unit"

text \<open>
  A computation that leaves a trace and throws or returns. \<open>call ev r\<close> is an awaited
  call with outcome \<open>r\<close>: the trace records the calls that returned. \<open>andThen\<close>
  runs the rest after a call that returned and stops at a throw.
\<close>

type_synonym 'a io = "event list \<times> (exn + 'a)"

definition call :: "event \<Rightarrow> exn + 'a \<Rightarrow> 'a io" where
  "call ev r = (case r of Inl x \<Rightarrow> ([], Inl x) | Inr a \<Rightarrow> ([ev], Inr a))"

definition andThen :: "'a io \<Rightarrow> ('a \<Rightarrow> 'b io) \<Rightarrow> 'b io" where
  "andThen m f =
     (case m of
        (tr, Inl x) \<Rightarrow> (tr, Inl x)
      | (tr, Inr a) \<Rightarrow> (case f a of (tr', r) \<Rightarrow> (tr @ tr', r)))"

text \<open>
  The block "Set new Container version": the caller's version if there is one (a
  truthy string), else the stored version, patch-bumped, else 1.0.0.
\<close>

definition newContainerVersion :: "world \<Rightarrow> cauldron \<Rightarrow> string option \<Rightarrow> (string option) io" where
  "newContainerVersion w c containerVersion =
     (if truthy containerVersion then ([], Inr containerVersion)
      else
        andThen (call GetDescriptor (getDescriptor c)) (\<lambda>napVersion.
        andThen (if detachContainerVersionFromRoot napVersion
                 then call GetContainerVersion (getContainerVersion c)
                 else call GetTopLevelContainerVersion (getTopLevelContainerVersion c))
          (\<lambda>stored.
             ([], Inr (case stored of
                         None \<Rightarrow> Some ''1.0.0''
                       | Some v \<Rightarrow> if v \<noteq> [] then semverInc v else Some ''1.0.0'')))))"

text \<open>A value inside a template literal: \<^verbatim>\<open>null\<close> prints as such.\<close>

definition interpolateNull :: "string option \<Rightarrow> string" where
  "interpolateNull v = (case v of None \<Rightarrow> ''null'' | Some s \<Rightarrow> s)"

text \<open>The body of the \<^verbatim>\<open>try\<close> block; it returns the new container version.\<close>

definition tryBlock ::
    "world \<Rightarrow> NativeApplicationDescriptor \<Rightarrow> string list \<Rightarrow> string option \<Rightarrow> (string option) io" where
  "tryBlock w napDescriptor commitMessage containerVersion =
     andThen (call GetActiveCauldron (getActiveCauldron w)) (\<lambda>c.
     andThen (newContainerVersion w c containerVersion) (\<lambda>cauldronContainerNewVersion.
     andThen (call BeginTransaction (beginTransaction c)) (\<lambda>_.
     andThen (call StateUpdateFunc (stateUpdateFunc w)) (\<lambda>_.
     andThen (call GetCompositeGeneratorConfig (getCompositeGeneratorConfig c)) (\<lambda>_.
     andThen (call CreateTmpDir (createTmpDir w)) (\<lambda>compositeDir.
     andThen (call RunCauldronCompositeGen (runCauldronCompositeGen w)) (\<lambda>comp.
     andThen (call GetNativeDependencies (getNativeDependencies c)) (\<lambda>cauldronNativeDependencies.
     andThen (call GetResolvedNativeDependencies (getResolvedNativeDependencies comp))
       (\<lambda>compositeNativeDeps.
     (let nativeDependencies =
            finalNativeDependencies cauldronNativeDependencies (resolved compositeNativeDeps)
      in
     andThen (call (SyncContainerNativeDependencies nativeDependencies)
                (syncContainerNativeDependencies c nativeDependencies)) (\<lambda>_.
     andThen (call RunCauldronContainerGen (runCauldronContainerGen w)) (\<lambda>_.
     andThen (call (UpdateContainerVersion cauldronContainerNewVersion)
                (updateContainerVersion c cauldronContainerNewVersion)) (\<lambda>_.
     andThen (call UpdateContainerErnVersion (updateContainerErnVersion c)) (\<lambda>_.
     andThen (call (AddOrUpdateYarnLock (compositeDir @ ''/yarn.lock''))
                (addOrUpdateYarnLock c (compositeDir @ ''/yarn.lock''))) (\<lambda>_.
     andThen (call RunContainerTransformers (runContainerTransformers w)) (\<lambda>_.
     andThen (call (CommitTransaction commitMessage) (commitTransaction c commitMessage)) (\<lambda>_.
       ([LogInfo (''Added new container version '' @ interpolateNull cauldronContainerNewVersion
                  @ '' for '' @ descriptorString napDescriptor @ '' in Cauldron'')],
        Inr cauldronContainerNewVersion))))))))))))))))))"

text \<open>
  \<^verbatim>\<open>syncCauldronContainer(stateUpdateFunc, napDescriptor, commitMessage, {containerVersion})\<close>.
  The \<^verbatim>\<open>catch\<close> logs the error, calls \<^verbatim>\<open>cauldron.discardTransaction()\<close> if the
  variable \<^verbatim>\<open>cauldron\<close> was assigned, that is if \<^verbatim>\<open>getActiveCauldron\<close> returned, and
  throws the error again. The publishers run after the \<^verbatim>\<open>try\<close> statement.
\<close>

definition syncCauldronContainer ::
    "world \<Rightarrow> NativeApplicationDescriptor \<Rightarrow> string list \<Rightarrow> string option \<Rightarrow> unit io" where
  "syncCauldronContainer w napDescriptor commitMessage containerVersion =
     (if \<not> truthy (platform napDescriptor) then
        ([], Inl (Error (descriptorString napDescriptor @ '' does not specify a platform'')))
      else
        case tryBlock w napDescriptor commitMessage containerVersion of
          (tr, Inl x) \<Rightarrow>
            (tr @ LogError (''[syncCauldronContainer] An error occurred: '' @ exnToString x)
                # (case getActiveCauldron w of Inr c \<Rightarrow> [DiscardTransaction] | Inl y \<Rightarrow> []),
             Inl x)
        | (tr, Inr cauldronContainerNewVersion) \<Rightarrow>
            andThen (tr, Inr ()) (\<lambda>_.
              call (RunContainerPublishers cauldronContainerNewVersion)
                (runContainerPublishers w cauldronContainerNewVersion)))"

text \<open>
  Modelled from the spec: the transaction envelope of the Cauldron store (ern-cauldron-api),
  which is outside the files verified here. The store holds the persisted document and, inside a
  transaction, a working copy. \<^verbatim>\<open>beginTransaction\<close> opens a working copy of the
  persisted document; a mutation inside a transaction changes the working copy only
  (outside one it writes through); \<^verbatim>\<open>commitTransaction\<close> makes the working copy the
  persisted document; \<^verbatim>\<open>discardTransaction\<close> drops the working copy and is safe when
  idle. The mutating calls of \<^verbatim>\<open>syncCauldronContainer\<close> are the state update function
  and the four updates of the container record; \<open>effect\<close> says what each does to a
  document.
\<close>

record 'doc store =
  persisted :: 'doc
  working :: "'doc option"

definition mutates :: "event \<Rightarrow> bool" where
  "mutates ev =
     (case ev of
        StateUpdateFunc \<Rightarrow> True
      | SyncContainerNativeDependencies ds \<Rightarrow> True
      | UpdateContainerVersion v \<Rightarrow> True
      | UpdateContainerErnVersion \<Rightarrow> True
      | AddOrUpdateYarnLock f \<Rightarrow> True
      | _ \<Rightarrow> False)"

definition applyEvent :: "(event \<Rightarrow> 'doc \<Rightarrow> 'doc) \<Rightarrow> 'doc store \<Rightarrow> event \<Rightarrow> 'doc store" where
  "applyEvent effect s ev =
     (case ev of
        BeginTransaction \<Rightarrow> s\<lparr>working := Some (persisted s)\<rparr>
      | CommitTransaction msg \<Rightarrow>
          (case working s of None \<Rightarrow> s | Some d \<Rightarrow> \<lparr>persisted = d, working = None\<rparr>)
      | DiscardTransaction \<Rightarrow> s\<lparr>working := None\<rparr>
      | _ \<Rightarrow>
          if mutates ev then
            (case working s of
               None \<Rightarrow> s\<lparr>persisted := effect ev (persisted s)\<rparr>
             | Some d \<Rightarrow> s\<lparr>working := Some (effect ev d)\<rparr>)
          else s)"

definition replay :: "(event \<Rightarrow> 'doc \<Rightarrow> 'doc) \<Rightarrow> 'doc store \<Rightarrow> event list \<Rightarrow> 'doc store" where
  "replay effect s tr = foldl (applyEvent effect) s tr"

section \<open>Vocabulary of the properties and concrete inputs\<close>

text \<open>The \<^verbatim>\<open>yarn.add\<close> calls of a trace, in order.\<close>

definition yarnAdds :: "event list \<Rightarrow> event list" where
  "yarnAdds tr = filter (\<lambda>ev. case ev of YarnAdd _ _ _ \<Rightarrow> True | _ \<Rightarrow> False) tr"

text \<open>
  A scanned entry conflicts with the manifest when the native manifest has its basePath
  with another version: the test of the loop's \<^verbatim>\<open>else\<close> branch.
\<close>

definition transitiveConflict :: "env \<Rightarrow> NativeDependency \<Rightarrow> bool" where
  "transitiveConflict e dep =
     (case getNativeDependency e (new_PackagePath (basePath (packagePath dep))) of
        None \<Rightarrow> False
      | Some manifestDep \<Rightarrow> \<not> same (packagePath dep) manifestDep False)"





text \<open>
  An empty manifest, and a candidate whose install shows the candidate itself as native
  code (version 1.0.0), no api and no api-impl.
\<close>

definition someNativeLibEnv :: env where
  "someNativeLibEnv =
     \<lparr>nativeManifest = [],
      jsManifest = [],
      scanAll = (\<lambda>_. [\<lparr>packagePath = \<lparr>basePath = ''some-native-lib'', version = Some ''1.0.0''\<rparr>\<rparr>]),
      isDependencyApiOrApiImpl = (\<lambda>_. False),
      tmpDir = ''/tmp/ern''\<rparr>"



text \<open>The versions handed to \<^verbatim>\<open>cauldron.updateContainerVersion\<close> in a trace, in order.\<close>

definition recordedVersions :: "event list \<Rightarrow> string option list" where
  "recordedVersions tr =
     concat (map (\<lambda>ev. case ev of UpdateContainerVersion v \<Rightarrow> [v] | _ \<Rightarrow> []) tr)"

text \<open>The file writes and the \<^verbatim>\<open>yarn install\<close> runs of a trace.\<close>

definition writesAndInstalls :: "event list \<Rightarrow> event list" where
  "writesAndInstalls tr =
     filter (\<lambda>ev. case ev of WriteFileSync f \<Rightarrow> True | YarnInstall d \<Rightarrow> True | _ \<Rightarrow> False) tr"

text \<open>
  The scenario of the specification for the reconciliation: the store has A and B, the
  composite resolves B with a bumped version and C.
\<close>

definition depA :: PackagePath where
  "depA = \<lparr>basePath = ''A'', version = Some ''1.0.0''\<rparr>"

definition depB :: PackagePath where
  "depB = \<lparr>basePath = ''B'', version = Some ''1.0.0''\<rparr>"

definition depB' :: PackagePath where
  "depB' = \<lparr>basePath = ''B'', version = Some ''1.1.0''\<rparr>"

definition depC :: PackagePath where
  "depC = \<lparr>basePath = ''C'', version = Some ''2.0.0''\<rparr>"

text \<open>
  A Cauldron whose calls all return: the container version is attached to the root and is
  1.0.0, the stored native dependencies are A and B.
\<close>

definition exampleCauldron :: cauldron where
  "exampleCauldron =
     \<lparr>getDescriptor = Inr \<lparr>detachContainerVersionFromRoot = False\<rparr>,
      getContainerVersion = Inr None,
      getTopLevelContainerVersion = Inr (Some ''1.0.0''),
      beginTransaction = Inr (),
      getCompositeGeneratorConfig = Inr (),
      getNativeDependencies = Inr [depA, depB],
      syncContainerNativeDependencies = (\<lambda>_. Inr ()),
      updateContainerVersion = (\<lambda>_. Inr ()),
      updateContainerErnVersion = Inr (),
      addOrUpdateYarnLock = (\<lambda>_. Inr ()),
      commitTransaction = (\<lambda>_. Inr ())\<rparr>"

text \<open>A run in which every step returns, and one in which the container generation throws.\<close>

definition exampleWorld :: world where
  "exampleWorld =
     \<lparr>getActiveCauldron = Inr exampleCauldron,
      stateUpdateFunc = Inr (),
      createTmpDir = Inr ''/tmp/composite'',
      runCauldronCompositeGen =
        Inr \<lparr>getResolvedNativeDependencies = Inr \<lparr>resolved = [depB', depC]\<rparr>\<rparr>,
      runCauldronContainerGen = Inr (),
      runContainerTransformers = Inr (),
      runContainerPublishers = (\<lambda>_. Inr ())\<rparr>"

text \<open>
  The same run with a store that holds A alone and a composite that resolves B twice,
  with two versions; the same run with the prerelease 1.0.0-beta.1 stored as the
  container version; and with the tag \<^verbatim>\<open>latest\<close> stored, which is no version.
\<close>

definition duplicateWorld :: world where
  "duplicateWorld =
     exampleWorld
       \<lparr>getActiveCauldron := Inr (exampleCauldron\<lparr>getNativeDependencies := Inr [depA]\<rparr>),
        runCauldronCompositeGen :=
          Inr \<lparr>getResolvedNativeDependencies = Inr \<lparr>resolved = [depB, depB']\<rparr>\<rparr>\<rparr>"

definition prereleaseWorld :: world where
  "prereleaseWorld =
     exampleWorld
       \<lparr>getActiveCauldron :=
          Inr (exampleCauldron\<lparr>getTopLevelContainerVersion := Inr (Some ''1.0.0-beta.1'')\<rparr>)\<rparr>"

definition latestWorld :: world where
  "latestWorld =
     exampleWorld
       \<lparr>getActiveCauldron :=
          Inr (exampleCauldron\<lparr>getTopLevelContainerVersion := Inr (Some ''latest'')\<rparr>)\<rparr>"

definition failingWorld :: world where
  "failingWorld =
     exampleWorld\<lparr>runCauldronContainerGen := Inl (Error ''container generation failed'')\<rparr>"

definition exampleDescriptor :: NativeApplicationDescriptor where
  "exampleDescriptor = \<lparr>platform = Some ''android'', descriptorString = ''app:android:1.0.0''\<rparr>"

text \<open>
  A store document that is the native dependency set alone:
  \<^verbatim>\<open>syncContainerNativeDependencies\<close> replaces it, the other calls leave it.
\<close>

definition dependencySetEffect :: "event \<Rightarrow> PackagePath list \<Rightarrow> PackagePath list" where
  "dependencySetEffect ev doc =
     (case ev of SyncContainerNativeDependencies ds \<Rightarrow> ds | _ \<Rightarrow> doc)"

text \<open>
  A MiniApp from before the \<^verbatim>\<open>ern\<close> object: its \<^verbatim>\<open>package.json\<close> has
  \<^verbatim>\<open>ernPlatformVersion\<close> and react-native 0.58.0; the manifest declares react-native
  0.59.0 for every platform version.
\<close>

definition legacyPackageJson :: PackageJson where
  "legacyPackageJson =
     \<lparr>dependencies = Some ((\<lambda>_. None)(''react-native'' := Some ''0.58.0'')),
      ern = None,
      ernPlatformVersion = Some ''0.20.0''\<rparr>"

definition legacyDisk :: "string \<Rightarrow> PackageJson option" where
  "legacyDisk = (\<lambda>_. None)(''/miniapp/package.json'' := Some legacyPackageJson)"

definition manifestOf :: "string \<Rightarrow> PackagePath list" where
  "manifestOf v = [\<lparr>basePath = ''react-native'', version = Some ''0.59.0''\<rparr>]"

section \<open>Properties of addDependency\<close>

subsection \<open>Lookups and the loop\<close>




lemma manifestDependencyOf_yarnAdds: "yarnAdds (fst (manifestDependencyOf e q)) = []"
  by (simp add: manifestDependencyOf_def yarnAdds_def split: option.splits)


lemma check_yarnAdds: "yarnAdds (fst (checkNativeDependencies e d deps)) = []"
  by (induction deps) (auto simp: yarnAdds_def split: prod.splits option.splits)

lemma check_unsupported:
  "dep \<in> set deps \<Longrightarrow> basePath (packagePath dep) = basePath d \<Longrightarrow>
   \<not> isDependencyApiOrApiImpl e (basePath d) \<Longrightarrow>
   snd (checkNativeDependencies e d deps) \<noteq> Normal"
  by (induction deps)
     (auto simp: same_def new_PackagePath_def split: prod.splits option.splits)

lemma check_Return:
  "checkNativeDependencies e d deps = (tr, Return) \<Longrightarrow>
   \<exists>dep0\<in>set deps. basePath (packagePath dep0) = basePath d
      \<and> tr \<noteq> [] \<and> last tr = LogError (unsupportedMessage dep0)"
  by (induction deps arbitrary: tr)
     (auto simp: same_def new_PackagePath_def split: prod.splits option.splits if_splits)

lemma check_Throw:
  "checkNativeDependencies e d deps = (tr, Throw x) \<Longrightarrow>
   \<exists>dep'\<in>set deps. basePath (packagePath dep') \<noteq> basePath d \<and> transitiveConflict e dep'
      \<and> x = Error (transitiveMessage dep')"
  by (induction deps arbitrary: tr)
     (auto simp: same_def new_PackagePath_def transitiveConflict_def
           split: prod.splits option.splits if_splits)

text \<open>
  A candidate absent from the manifest whose install shows native code: the outcome of
  \<^verbatim>\<open>addDependency\<close> follows the way the loop ends.
\<close>

lemma addDependency_unknown:
  assumes unknown: "snd (manifestDependencyOf e (new_PackagePath (basePath d))) = None"
    and nonempty: "scanAll e d \<noteq> []"
    and chk: "checkNativeDependencies e d (scanAll e d) = (tr, c)"
  shows "yarnAdds (trace (addDependency e this_path dir (Some d) False False)) =
           YarnAdd (tmpDir e) d NoOption #
             (case c of Normal \<Rightarrow> [YarnAdd this_path d NoOption] | Return \<Rightarrow> [] | Throw x \<Rightarrow> [])"
    and "result (addDependency e this_path dir (Some d) False False) =
           (case c of Normal \<Rightarrow> Inr (Some d) | Return \<Rightarrow> Inr None | Throw x \<Rightarrow> Inl x)"
    and "cwd (addDependency e this_path dir (Some d) False False) =
           (case c of Normal \<Rightarrow> this_path | Return \<Rightarrow> tmpDir e | Throw x \<Rightarrow> tmpDir e)"
    and "c \<noteq> Normal \<Longrightarrow> tr \<noteq> [] \<Longrightarrow>
           last (trace (addDependency e this_path dir (Some d) False False)) = last tr"
proof -
  obtain lookups where md: "manifestDependencyOf e (new_PackagePath (basePath d)) = (lookups, None)"
    using unknown by (cases "manifestDependencyOf e (new_PackagePath (basePath d))") simp
  have ya: "yarnAdds lookups = []"
    using manifestDependencyOf_yarnAdds [of e "new_PackagePath (basePath d)"] md by simp
  have yb: "yarnAdds tr = []"
    using check_yarnAdds [of e d "scanAll e d"] chk by simp
  have len: "Suc 0 \<le> length (scanAll e d)"
    using nonempty by (cases "scanAll e d") simp_all
  show "yarnAdds (trace (addDependency e this_path dir (Some d) False False)) =
           YarnAdd (tmpDir e) d NoOption #
             (case c of Normal \<Rightarrow> [YarnAdd this_path d NoOption] | Return \<Rightarrow> [] | Throw x \<Rightarrow> [])"
    using md ya yb nonempty chk len
    by (cases c)
       (simp_all add: addDependency_def addChecked_def yarnAdds_def fromString_toString_def Let_def)
  show "result (addDependency e this_path dir (Some d) False False) =
           (case c of Normal \<Rightarrow> Inr (Some d) | Return \<Rightarrow> Inr None | Throw x \<Rightarrow> Inl x)"
    using md nonempty chk len
    by (cases c) (simp_all add: addDependency_def addChecked_def Let_def)
  show "cwd (addDependency e this_path dir (Some d) False False) =
           (case c of Normal \<Rightarrow> this_path | Return \<Rightarrow> tmpDir e | Throw x \<Rightarrow> tmpDir e)"
    using md nonempty chk len
    by (cases c) (simp_all add: addDependency_def addChecked_def Let_def)
  show "c \<noteq> Normal \<Longrightarrow> tr \<noteq> [] \<Longrightarrow>
           last (trace (addDependency e this_path dir (Some d) False False)) = last tr"
    using md nonempty chk len
    by (cases c) (simp_all add: addDependency_def addChecked_def Let_def)
qed

subsection \<open>The null guard\<close>

text \<open>
  C9. For a null or undefined dependency, \<^verbatim>\<open>addDependency\<close> returns without raising:
  it logs one error and returns \<^verbatim>\<open>undefined\<close>. The trace holds nothing else: no
  manifest lookup, no install, no \<^verbatim>\<open>yarn.add\<close> in the MiniApp; the working directory is
  as it was.
\<close>

theorem addDependency_null:
  "addDependency e this_path dir None dev peer =
     \<lparr>trace = [LogError ''dependency cant be null''], cwd = dir, result = Inr None\<rparr>"
  by (simp add: addDependency_def)

subsection \<open>Development and peer dependencies\<close>

text \<open>
  C6. With the dev or the peer flag set, a (non-null) dependency goes straight to
  \<^verbatim>\<open>addDevOrPeerDependency\<close>: the whole trace is one \<^verbatim>\<open>yarn.add\<close> with the dev option
  (or the peer option when \<^verbatim>\<open>dev\<close> is not set), in the directory the process is in.
  There is no manifest lookup, no throwaway install, no scan and no version check: the
  outcome does not depend on the manifest or on what an install would show. The call
  returns \<^verbatim>\<open>undefined\<close>.
\<close>

theorem addDependency_dev_or_peer:
  "dev \<or> peer \<Longrightarrow>
     addDependency e this_path dir (Some d) dev peer =
       \<lparr>trace = [YarnAdd dir d (if dev then DevOption else PeerOption)], cwd = dir,
        result = Inr None\<rparr>"
  by (simp add: addDependency_def addDevOrPeerDependency_def fromString_toString_def)

text \<open>
  Witness for C6: some-native-lib, which the checked path rejects, is staged as a
  devDependency, and as a peerDependency.
\<close>

theorem addDependency_dev_or_peer_witness:
  "addDependency someNativeLibEnv ''/miniapp'' ''/miniapp''
       (Some \<lparr>basePath = ''some-native-lib'', version = None\<rparr>) True False =
     \<lparr>trace = [YarnAdd ''/miniapp'' \<lparr>basePath = ''some-native-lib'', version = None\<rparr> DevOption],
      cwd = ''/miniapp'', result = Inr None\<rparr>
   \<and> addDependency someNativeLibEnv ''/miniapp'' ''/miniapp''
       (Some \<lparr>basePath = ''some-native-lib'', version = None\<rparr>) False True =
     \<lparr>trace = [YarnAdd ''/miniapp'' \<lparr>basePath = ''some-native-lib'', version = None\<rparr> PeerOption],
      cwd = ''/miniapp'', result = Inr None\<rparr>"
  using addDependency_dev_or_peer [of True False someNativeLibEnv "''/miniapp''" "''/miniapp''"
          "\<lparr>basePath = ''some-native-lib'', version = None\<rparr>"]
        addDependency_dev_or_peer [of False True someNativeLibEnv "''/miniapp''" "''/miniapp''"
          "\<lparr>basePath = ''some-native-lib'', version = None\<rparr>"]
  by simp

subsection \<open>Dependencies the manifest declares\<close>



















subsection \<open>Candidates the manifest does not declare\<close>

text \<open>
  C1, as stated, fails. With an empty manifest, the candidate some-native-lib, whose
  install shows some-native-lib itself as native code that is no api or api-impl, is not
  added; but the call does not fail with an error: the rejection is
  \<^verbatim>\<open>return log.error(...)\<close>, so the call returns \<^verbatim>\<open>undefined\<close> normally.
\<close>

theorem addDependency_unsupported_native_counterexample:
  "result (addDependency someNativeLibEnv ''/miniapp'' ''/miniapp''
       (Some \<lparr>basePath = ''some-native-lib'', version = None\<rparr>) False False) = Inr None
   \<and> \<not> isl (result (addDependency someNativeLibEnv ''/miniapp'' ''/miniapp''
       (Some \<lparr>basePath = ''some-native-lib'', version = None\<rparr>) False False))"
  by (simp add: addDependency_def manifestDependencyOf_def getNativeDependency_def
      getJsDependency_def someNativeLibEnv_def new_PackagePath_def same_def Let_def)

text \<open>
  C1, amended. Let the candidate \<open>d\<close> (not null, neither dev nor peer) be absent from
  the manifest, let the scan of its throwaway install hold an entry with the basePath of
  \<open>d\<close>, and let that basePath be no api or api-impl. Then the candidate is rejected and
  not added: the only \<^verbatim>\<open>yarn.add\<close> of the run is the throwaway install. Either the call
  logs the error \<^verbatim>\<open>"<entry> plugin is not yet supported. ..."\<close> as its last action and
  returns \<^verbatim>\<open>undefined\<close> without raising, or the scan holds a transitive entry in
  conflict with the manifest and the call throws the transitive-dependency error for
  it. When no transitive entry of the scan conflicts with the manifest, it is the
  logged error and the normal return.
\<close>

theorem addDependency_unsupported_native:
  assumes unknown: "snd (manifestDependencyOf e (new_PackagePath (basePath d))) = None"
    and found: "dep \<in> set (scanAll e d)" "basePath (packagePath dep) = basePath d"
    and notApi: "\<not> isDependencyApiOrApiImpl e (basePath d)"
  shows "yarnAdds (trace (addDependency e this_path dir (Some d) False False))
           = [YarnAdd (tmpDir e) d NoOption]
       \<and> ((result (addDependency e this_path dir (Some d) False False) = Inr None
            \<and> (\<exists>dep0\<in>set (scanAll e d). basePath (packagePath dep0) = basePath d
                 \<and> last (trace (addDependency e this_path dir (Some d) False False))
                     = LogError (unsupportedMessage dep0)))
          \<or> (\<exists>dep'\<in>set (scanAll e d). basePath (packagePath dep') \<noteq> basePath d
                 \<and> transitiveConflict e dep'
                 \<and> result (addDependency e this_path dir (Some d) False False)
                     = Inl (Error (transitiveMessage dep'))))
       \<and> ((\<forall>dep'\<in>set (scanAll e d). basePath (packagePath dep') \<noteq> basePath d
                 \<longrightarrow> \<not> transitiveConflict e dep')
            \<longrightarrow> result (addDependency e this_path dir (Some d) False False) = Inr None)"
proof -
  obtain tr c where chk: "checkNativeDependencies e d (scanAll e d) = (tr, c)"
    by (cases "checkNativeDependencies e d (scanAll e d)")
  have nonempty: "scanAll e d \<noteq> []" using found by auto
  have notNormal: "c \<noteq> Normal"
    using check_unsupported [OF found notApi] chk by simp
  note facts = addDependency_unknown [OF unknown nonempty chk, of this_path dir]
  show ?thesis
  proof (cases c)
    case Normal
    with notNormal show ?thesis by simp
  next
    case Return
    from check_Return [OF chk [unfolded Return]] obtain dep0 where
      d0: "dep0 \<in> set (scanAll e d)" "basePath (packagePath dep0) = basePath d"
          "tr \<noteq> []" "last tr = LogError (unsupportedMessage dep0)" by blast
    have "last (trace (addDependency e this_path dir (Some d) False False))
            = LogError (unsupportedMessage dep0)"
      using facts(4) d0 Return by simp
    then show ?thesis using facts(1,2) Return d0 by auto
  next
    case (Throw x)
    from check_Throw [OF chk [unfolded Throw]] obtain dep' where
      d1: "dep' \<in> set (scanAll e d)" "basePath (packagePath dep') \<noteq> basePath d"
          "transitiveConflict e dep'" "x = Error (transitiveMessage dep')" by blast
    then show ?thesis using facts(1,2) Throw by auto
  qed
qed

text \<open>
  Witness for the amended C1, the scenario of the specification: manifest \<^verbatim>\<open>{}\<close>,
  candidate some-native-lib with native code of its own. Only the throwaway install runs
  and the call returns \<^verbatim>\<open>undefined\<close>.
\<close>

theorem addDependency_unsupported_native_witness:
  "yarnAdds (trace (addDependency someNativeLibEnv ''/miniapp'' ''/miniapp''
       (Some \<lparr>basePath = ''some-native-lib'', version = None\<rparr>) False False))
     = [YarnAdd ''/tmp/ern'' \<lparr>basePath = ''some-native-lib'', version = None\<rparr> NoOption]
   \<and> result (addDependency someNativeLibEnv ''/miniapp'' ''/miniapp''
       (Some \<lparr>basePath = ''some-native-lib'', version = None\<rparr>) False False) = Inr None"
proof -
  let ?d = "\<lparr>basePath = ''some-native-lib'', version = None\<rparr>"
  let ?dep = "\<lparr>packagePath = \<lparr>basePath = ''some-native-lib'', version = Some ''1.0.0''\<rparr>\<rparr>"
  have unknown: "snd (manifestDependencyOf someNativeLibEnv (new_PackagePath (basePath ?d))) = None"
    by (simp add: manifestDependencyOf_def getNativeDependency_def getJsDependency_def
        someNativeLibEnv_def)
  have found: "?dep \<in> set (scanAll someNativeLibEnv ?d)" "basePath (packagePath ?dep) = basePath ?d"
    by (simp_all add: someNativeLibEnv_def)
  have notApi: "\<not> isDependencyApiOrApiImpl someNativeLibEnv (basePath ?d)"
    by (simp add: someNativeLibEnv_def)
  have none: "\<forall>dep'\<in>set (scanAll someNativeLibEnv ?d).
      basePath (packagePath dep') \<noteq> basePath ?d \<longrightarrow> \<not> transitiveConflict someNativeLibEnv dep'"
    by (simp add: someNativeLibEnv_def)
  have tmp: "tmpDir someNativeLibEnv = ''/tmp/ern''"
    by (simp add: someNativeLibEnv_def)
  show ?thesis
    using addDependency_unsupported_native [OF unknown found notApi, of "''/miniapp''" "''/miniapp''"]
          none tmp
    by simp
qed




section \<open>Properties of upgradeToPlatformVersion\<close>

text \<open>
  The loop of the upgrade runs through, or throws the TypeError of a missing
  \<^verbatim>\<open>dependencies\<close> object; it writes no file and installs nothing.
\<close>

lemma upgradeDependencies_completion:
  "upgradeDependencies mds deps = (tr, deps', c) \<Longrightarrow>
   (c = None \<or> (\<exists>msg. c = Some (TypeError msg))) \<and> writesAndInstalls tr = []
   \<and> ((deps \<noteq> None \<or> mds = []) \<longrightarrow> c = None)"
proof (induction mds deps arbitrary: tr deps' c rule: upgradeDependencies.induct)
  case (1 deps)
  then show ?case by (simp add: writesAndInstalls_def)
next
  case (2 manifestDependency rest)
  then show ?case by (auto simp: writesAndInstalls_def)
next
  case (3 manifestDependency rest deps)
  then show ?case
    by (auto simp: writesAndInstalls_def Let_def split: if_splits prod.splits)
qed

text \<open>
  C10. If the \<^verbatim>\<open>package.json\<close> of the MiniApp has no \<^verbatim>\<open>ern\<close> object,
  \<^verbatim>\<open>upgradeToPlatformVersion\<close> throws, and it throws before anything is written: the
  disk is as it was, the trace holds no file write and no \<^verbatim>\<open>yarn install\<close>, the working
  directory has not changed. When the \<^verbatim>\<open>dependencies\<close> object exists (or the manifest
  lists nothing) the error thrown is the one of the \<^verbatim>\<open>ern\<close> check.
\<close>

theorem upgradeToPlatformVersion_without_ern:
  assumes noErn: "ern pj = None"
  shows "isl (upgradeResult (upgradeToPlatformVersion manifestAt this_path pj files dir v))
       \<and> disk (upgradeToPlatformVersion manifestAt this_path pj files dir v) = files
       \<and> writesAndInstalls
           (upgradeTrace (upgradeToPlatformVersion manifestAt this_path pj files dir v)) = []
       \<and> upgradeCwd (upgradeToPlatformVersion manifestAt this_path pj files dir v) = dir
       \<and> ((dependencies pj \<noteq> None \<or> manifestAt v = []) \<longrightarrow>
            upgradeResult (upgradeToPlatformVersion manifestAt this_path pj files dir v)
              = Inl (Error (missingErnMessage (ernPlatformVersion pj))))"
proof -
  obtain tr deps' c where u: "upgradeDependencies (manifestAt v) (dependencies pj) = (tr, deps', c)"
    by (cases "upgradeDependencies (manifestAt v) (dependencies pj)")
  note facts = upgradeDependencies_completion [OF u]
  from facts have "c = None \<or> (\<exists>msg. c = Some (TypeError msg))" by simp
  then show ?thesis
  proof
    assume "c = None"
    then show ?thesis using u noErn facts
      by (simp add: upgradeToPlatformVersion_def Let_def writesAndInstalls_def)
  next
    assume "\<exists>msg. c = Some (TypeError msg)"
    then show ?thesis using u noErn facts
      by (auto simp: upgradeToPlatformVersion_def Let_def writesAndInstalls_def)
  qed
qed

text \<open>
  Witness for C10: the upgrade of the legacy MiniApp to platform 0.30.0 bumps react-native
  in memory, then throws at the \<^verbatim>\<open>ern\<close> check; the disk still holds the old document.
\<close>

theorem upgradeToPlatformVersion_without_ern_witness:
  "upgradeResult (upgradeToPlatformVersion manifestOf ''/miniapp'' legacyPackageJson legacyDisk
       ''/miniapp'' ''0.30.0'')
     = Inl (Error (missingErnMessage (Some ''0.20.0'')))
   \<and> disk (upgradeToPlatformVersion manifestOf ''/miniapp'' legacyPackageJson legacyDisk
       ''/miniapp'' ''0.30.0'') = legacyDisk
   \<and> upgradeTrace (upgradeToPlatformVersion manifestOf ''/miniapp'' legacyPackageJson legacyDisk
       ''/miniapp'' ''0.30.0'')
     = [ManifestGetJsAndNativeDependencies ''0.30.0'', LogInfo ''react-native : 0.58.0 => 0.59.0'']"
proof -
  have noErn: "ern legacyPackageJson = None"
    by (simp add: legacyPackageJson_def)
  have deps: "dependencies legacyPackageJson \<noteq> None"
             "ernPlatformVersion legacyPackageJson = Some ''0.20.0''"
    by (simp_all add: legacyPackageJson_def)
  have tr: "upgradeTrace (upgradeToPlatformVersion manifestOf ''/miniapp'' legacyPackageJson
       legacyDisk ''/miniapp'' ''0.30.0'')
     = [ManifestGetJsAndNativeDependencies ''0.30.0'', LogInfo ''react-native : 0.58.0 => 0.59.0'']"
    by (simp add: upgradeToPlatformVersion_def legacyPackageJson_def manifestOf_def truthy_def
        interpolate_def Let_def)
  show ?thesis
    using upgradeToPlatformVersion_without_ern [OF noErn, of manifestOf "''/miniapp''" legacyDisk
            "''/miniapp''" "''0.30.0''"] deps tr
    by simp
qed

section \<open>Properties of semver.inc\<close>

text \<open>Printing a number and reading it back; the numeral printed is a numeric identifier.\<close>

lemma digit_cases: "n < 10 \<Longrightarrow> n \<in> {0, 1, 2, 3, 4, 5, 6, 7, 8, Suc 8}"
  for n :: nat
  by auto

lemma digitValue_digitChar: "n < 10 \<Longrightarrow> digitValue (digitChar n) = n"
  using digit_cases [of n] by (auto simp: digitValue_def digitChar_def)

lemma isDigit_digitChar: "n < 10 \<Longrightarrow> isDigit (digitChar n)"
  using digit_cases [of n] by (auto simp: isDigit_def digitChar_def)

lemma digitChar_zero: "n < 10 \<Longrightarrow> digitChar n = CHR ''0'' \<Longrightarrow> n = 0"
  using digit_cases [of n] by (auto simp: digitChar_def)

lemma showNat_nonempty: "showNat n \<noteq> []"
  by (subst showNat.simps) simp

lemma showNat_digits: "list_all isDigit (showNat n)"
proof (induction n rule: showNat.induct)
  case (1 n)
  show ?case
  proof (cases "n < 10")
    case True
    then show ?thesis by (subst showNat.simps) (simp add: isDigit_digitChar)
  next
    case False
    then show ?thesis using 1 by (subst showNat.simps) (simp add: isDigit_digitChar)
  qed
qed

lemma decimalValue_showNat: "decimalValue (showNat n) = n"
proof (induction n rule: showNat.induct)
  case (1 n)
  show ?case
  proof (cases "n < 10")
    case True
    then show ?thesis
      by (subst showNat.simps) (simp add: decimalValue_def digitValue_digitChar)
  next
    case False
    then have "decimalValue (showNat (n div 10)) = n div 10" using 1 by simp
    then show ?thesis using False
      by (subst showNat.simps) (simp add: decimalValue_def digitValue_digitChar)
  qed
qed

lemma hd_showNat: "0 < n \<Longrightarrow> hd (showNat n) \<noteq> CHR ''0''"
proof (induction n rule: showNat.induct)
  case (1 n)
  show ?case
  proof (cases "n < 10")
    case True
    then show ?thesis using "1.prems" digitChar_zero [of n]
      by (subst showNat.simps) auto
  next
    case False
    then have "hd (showNat (n div 10)) \<noteq> CHR ''0''" using 1 by simp
    then show ?thesis using False showNat_nonempty [of "n div 10"]
      by (subst showNat.simps) simp
  qed
qed

lemma length_showNat_small: "n < 10 \<Longrightarrow> length (showNat n) = 1"
  by (subst showNat.simps) simp

lemma numericIdentifier_showNat: "numericIdentifier (showNat n)"
proof (cases "n < 10")
  case True
  then show ?thesis
    by (simp add: numericIdentifier_def showNat_nonempty showNat_digits length_showNat_small)
next
  case False
  then show ?thesis
    by (simp add: numericIdentifier_def showNat_nonempty showNat_digits hd_showNat)
qed

lemma length_showNat_le: "0 < k \<Longrightarrow> n < 10 ^ k \<Longrightarrow> length (showNat n) \<le> k"
proof (induction k arbitrary: n)
  case 0
  then show ?case by simp
next
  case (Suc k)
  show ?case
  proof (cases "n < 10")
    case True
    then show ?thesis by (simp add: length_showNat_small)
  next
    case False
    then have k: "0 < k" using Suc.prems by (cases k) auto
    have "n div 10 < 10 ^ k" using Suc.prems by (simp add: less_mult_imp_div_less mult.commute)
    then have "length (showNat (n div 10)) \<le> k" using Suc.IH k by simp
    then show ?thesis using False by (subst showNat.simps) simp
  qed
qed

lemma length_showNat_safe: "n \<le> MAX_SAFE_INTEGER \<Longrightarrow> length (showNat n) \<le> 16"
  using length_showNat_le [of 16 n] by (simp add: MAX_SAFE_INTEGER_def)

lemma showNat_chars: "c \<in> set (showNat n) \<Longrightarrow> isDigit c"
  using showNat_digits [of n] by (simp add: list_all_iff)

lemma splitOn_last: "c \<notin> set a \<Longrightarrow> splitOn c a = [a]"
  by (induction a) auto

lemma splitOn_append: "c \<notin> set a \<Longrightarrow> splitOn c (a @ c # r) = a # splitOn c r"
  by (induction a) auto

lemma trim_id: "s \<noteq> [] \<Longrightarrow> \<not> isSpace (hd s) \<Longrightarrow> \<not> isSpace (last s) \<Longrightarrow> trim s = s"
proof -
  assume a: "s \<noteq> []" "\<not> isSpace (hd s)" "\<not> isSpace (last s)"
  have 1: "dropWhile isSpace s = s" using a by (cases s) auto
  have 2: "dropWhile isSpace (rev s) = rev s" using a by (cases "rev s") (auto simp: last_rev hd_rev)
  show ?thesis by (simp add: trim_def 1 2)
qed

lemma isDigit_facts:
  "isDigit c \<Longrightarrow> \<not> isSpace c \<and> c \<noteq> CHR ''v'' \<and> c \<noteq> CHR ''.'' \<and> c \<noteq> CHR ''-'' \<and> c \<noteq> CHR ''+''"
  by (auto simp: isDigit_def isSpace_def)

lemma semverParse_release:
  assumes "major \<le> MAX_SAFE_INTEGER" "minor \<le> MAX_SAFE_INTEGER" "patch \<le> MAX_SAFE_INTEGER"
  shows "semverParse (release major minor patch) = Some (major, minor, patch, [])"
proof -
  let ?s = "release major minor patch"
  have ne: "?s \<noteq> []" by (simp add: release_def showNat_nonempty)
  have hd: "isDigit (hd ?s)"
    using showNat_nonempty [of major] showNat_chars [of "hd (showNat major)" major]
    by (simp add: release_def)
  have lst: "isDigit (last ?s)"
    using showNat_nonempty [of patch] showNat_chars [of "last (showNat patch)" patch]
    by (simp add: release_def)
  have tr: "trim ?s = ?s"
    using trim_id [OF ne] hd lst isDigit_facts by blast
  have v: "(case ?s of [] \<Rightarrow> ?s | c # r \<Rightarrow> if c = CHR ''v'' then r else ?s) = ?s"
    using ne hd isDigit_facts by (cases ?s) auto
  have all: "\<forall>c\<in>set ?s. c \<noteq> CHR ''-'' \<and> c \<noteq> CHR ''+''"
    using showNat_chars isDigit_facts by (auto simp: release_def)
  have tw: "takeWhile (\<lambda>c. c \<noteq> CHR ''-'' \<and> c \<noteq> CHR ''+'') ?s = ?s"
    using all by (simp add: takeWhile_eq_all_conv)
  have dw: "dropWhile (\<lambda>c. c \<noteq> CHR ''-'' \<and> c \<noteq> CHR ''+'') ?s = []"
    using all by (simp add: dropWhile_eq_Nil_conv)
  have dot: "\<And>n. CHR ''.'' \<notin> set (showNat n)"
    using showNat_chars isDigit_facts by blast
  have sp: "splitOn (CHR ''.'') ?s = [showNat major, showNat minor, showNat patch]"
    by (simp add: release_def splitOn_append splitOn_last dot)
  show ?thesis
    using assms
    by (simp add: semverParse_def Let_def tr v tw dw sp numericIdentifier_showNat decimalValue_showNat)
qed

lemma semverInc_release:
  assumes "major \<le> MAX_SAFE_INTEGER" "minor \<le> MAX_SAFE_INTEGER" "patch \<le> MAX_SAFE_INTEGER"
  shows "semverInc (release major minor patch) = Some (release major minor (patch + 1))"
proof -
  have "length (release major minor patch) \<le> 50"
    using assms length_showNat_safe [of major] length_showNat_safe [of minor]
      length_showNat_safe [of patch]
    by (simp add: release_def)
  then show ?thesis
    using semverParse_release [OF assms] by (simp add: semverInc_def MAX_LENGTH_def)
qed

text \<open>
  A release \<^verbatim>\<open>MAJOR.MINOR.PATCH\<close> followed by a prerelease tag: the patch bump drops
  the tag and keeps the three numbers.
\<close>

lemma splitOn_nonempty: "splitOn c s \<noteq> []"
  by (induction s) (auto split: list.splits)

lemma splitOn_chars:
  "list_all (list_all P) (splitOn c s) \<Longrightarrow> x \<in> set s \<Longrightarrow> P x \<or> x = c"
proof (induction s arbitrary: x)
  case Nil
  then show ?case by simp
next
  case (Cons y ys)
  show ?case
  proof (cases "y = c")
    case True
    then show ?thesis using Cons by auto
  next
    case False
    obtain w ws where sp: "splitOn c ys = w # ws"
      using splitOn_nonempty [of c ys] by (cases "splitOn c ys") auto
    then show ?thesis using Cons False by auto
  qed
qed

lemma identifierChar_facts:
  "identifierChar c \<or> c = CHR ''.'' \<Longrightarrow> \<not> isSpace c \<and> c \<noteq> CHR ''+''"
  by (auto simp: identifierChar_def isDigit_def isSpace_def)

lemma prerelease_chars:
  assumes "list_all prereleaseIdentifier (splitOn (CHR ''.'') pre)" "x \<in> set pre"
  shows "\<not> isSpace x \<and> x \<noteq> CHR ''+''"
proof -
  have "list_all (list_all identifierChar) (splitOn (CHR ''.'') pre)"
    using assms(1) by (simp add: list_all_iff prereleaseIdentifier_def)
  from splitOn_chars [OF this assms(2)] show ?thesis
    using identifierChar_facts by blast
qed

lemma semverParse_prerelease:
  assumes safe: "major \<le> MAX_SAFE_INTEGER" "minor \<le> MAX_SAFE_INTEGER" "patch \<le> MAX_SAFE_INTEGER"
    and pre: "pre \<noteq> []" "list_all prereleaseIdentifier (splitOn (CHR ''.'') pre)"
  shows "semverParse (release major minor patch @ CHR ''-'' # pre) = Some (major, minor, patch, pre)"
proof -
  let ?r = "release major minor patch"
  let ?s = "?r @ CHR ''-'' # pre"
  have rne: "?r \<noteq> []" by (simp add: release_def showNat_nonempty)
  have hd: "isDigit (hd ?s)"
    using showNat_nonempty [of major] showNat_chars [of "hd (showNat major)" major]
    by (simp add: release_def)
  have lst: "\<not> isSpace (last ?s)"
    using pre prerelease_chars [OF pre(2), of "last pre"] by simp
  have tr: "trim ?s = ?s"
    using trim_id [of ?s] hd lst isDigit_facts by auto
  have v: "(case ?s of [] \<Rightarrow> ?s | c # r \<Rightarrow> if c = CHR ''v'' then r else ?s) = ?s"
    using hd isDigit_facts by (cases ?s) auto
  have all: "\<forall>c\<in>set ?r. c \<noteq> CHR ''-'' \<and> c \<noteq> CHR ''+''"
    using showNat_chars isDigit_facts by (auto simp: release_def)
  have tw: "takeWhile (\<lambda>c. c \<noteq> CHR ''-'' \<and> c \<noteq> CHR ''+'') ?s = ?r"
    using all by (simp add: takeWhile_append2)
  have dw: "dropWhile (\<lambda>c. c \<noteq> CHR ''-'' \<and> c \<noteq> CHR ''+'') ?s = CHR ''-'' # pre"
    using all by (simp add: dropWhile_append2)
  have dot: "\<And>n. CHR ''.'' \<notin> set (showNat n)"
    using showNat_chars isDigit_facts by blast
  have sp: "splitOn (CHR ''.'') ?r = [showNat major, showNat minor, showNat patch]"
    by (simp add: release_def splitOn_append splitOn_last dot)
  have plus: "\<forall>c\<in>set pre. c \<noteq> CHR ''+''"
    using prerelease_chars [OF pre(2)] by blast
  have tw2: "takeWhile (\<lambda>c. c \<noteq> CHR ''+'') pre = pre"
    using plus by (simp add: takeWhile_eq_all_conv)
  have dw2: "dropWhile (\<lambda>c. c \<noteq> CHR ''+'') pre = []"
    using plus by (simp add: dropWhile_eq_Nil_conv)
  show ?thesis
    using safe pre(2)
    by (simp add: semverParse_def Let_def tr v tw dw sp numericIdentifier_showNat
        decimalValue_showNat tw2 dw2)
qed

lemma semverInc_prerelease:
  assumes safe: "major \<le> MAX_SAFE_INTEGER" "minor \<le> MAX_SAFE_INTEGER" "patch \<le> MAX_SAFE_INTEGER"
    and pre: "pre \<noteq> []" "list_all prereleaseIdentifier (splitOn (CHR ''.'') pre)"
    and len: "length pre \<le> 200"
  shows "semverInc (release major minor patch @ ''-'' @ pre) = Some (release major minor patch)"
proof -
  have "length (release major minor patch) \<le> 50"
    using safe length_showNat_safe [of major] length_showNat_safe [of minor]
      length_showNat_safe [of patch]
    by (simp add: release_def)
  then show ?thesis
    using semverParse_prerelease [OF safe pre] len pre(1)
    by (simp add: semverInc_def MAX_LENGTH_def)
qed

text \<open>Three stored versions: a release, a prerelease, and a string that is no version.\<close>

lemma semverInc_1_0_0: "semverInc ''1.0.0'' = Some ''1.0.1''"
  by (simp add: semverInc_def semverParse_def trim_def isSpace_def MAX_LENGTH_def
      numericIdentifier_def isDigit_def decimalValue_def digitValue_def MAX_SAFE_INTEGER_def
      release_def showNat.simps digitChar_def)

lemma semverInc_beta: "semverInc ''1.0.0-beta.1'' = Some ''1.0.0''"
  by (simp add: semverInc_def semverParse_def trim_def isSpace_def MAX_LENGTH_def
      numericIdentifier_def isDigit_def decimalValue_def digitValue_def MAX_SAFE_INTEGER_def
      release_def showNat.simps digitChar_def prereleaseIdentifier_def identifierChar_def)

lemma semverInc_latest: "semverInc ''latest'' = None"
  by (simp add: semverInc_def semverParse_def trim_def isSpace_def MAX_LENGTH_def
      numericIdentifier_def isDigit_def decimalValue_def digitValue_def MAX_SAFE_INTEGER_def
      release_def showNat.simps digitChar_def prereleaseIdentifier_def identifierChar_def)

lemma release_nonempty: "release major minor patch \<noteq> []"
  by (simp add: release_def showNat_nonempty)

section \<open>Properties of syncCauldronContainer\<close>

subsection \<open>The reconciled dependency set\<close>

lemma finalNativeDependencies_set:
  "set (finalNativeDependencies current discovered) =
     set discovered \<union> {c \<in> set current. basePath c \<notin> basePath ` set discovered}"
  by (auto simp: finalNativeDependencies_def differenceBy_basePath_def)

lemma finalNativeDependencies_distinct:
  "distinct (map basePath current) \<Longrightarrow> distinct (map basePath discovered) \<Longrightarrow>
   distinct (map basePath (finalNativeDependencies current discovered))"
  by (auto simp: finalNativeDependencies_def differenceBy_basePath_def distinct_map_filter)

subsection \<open>Runs of the try block\<close>

lemma tryBlock_no_cauldron:
  "getActiveCauldron w = Inl y \<Longrightarrow> tryBlock w nap msg cv = ([], Inl y)"
  by (simp add: tryBlock_def andThen_def call_def)

lemma tryBlock_failure_cauldron:
  "tryBlock w nap msg cv = (tr, Inl x) \<Longrightarrow> tr \<noteq> [] \<Longrightarrow> \<exists>c. getActiveCauldron w = Inr c"
  by (cases "getActiveCauldron w") (simp_all add: tryBlock_no_cauldron)

lemma newContainerVersion_trace:
  "newContainerVersion w c cv = (tr0, r) \<Longrightarrow>
   set tr0 \<subseteq> {GetDescriptor, GetContainerVersion, GetTopLevelContainerVersion}"
  by (auto simp: newContainerVersion_def andThen_def call_def split: if_splits sum.splits)

lemma newContainerVersion_result:
  assumes "newContainerVersion w c cv = (tr0, Inr v)"
  shows "(truthy cv \<longrightarrow> v = cv)
       \<and> (\<not> truthy cv \<longrightarrow>
            (\<exists>napVersion stored. getDescriptor c = Inr napVersion
               \<and> (if detachContainerVersionFromRoot napVersion
                   then getContainerVersion c else getTopLevelContainerVersion c) = Inr stored
               \<and> v = (case stored of
                         None \<Rightarrow> Some ''1.0.0''
                       | Some s \<Rightarrow> if s \<noteq> [] then semverInc s else Some ''1.0.0'')))"
  using assms
  by (auto simp: newContainerVersion_def andThen_def call_def split: if_splits sum.splits)

lemma recordedVersions_reads:
  "set tr0 \<subseteq> {GetDescriptor, GetContainerVersion, GetTopLevelContainerVersion} \<Longrightarrow>
   recordedVersions tr0 = []"
  by (induction tr0) (auto simp: recordedVersions_def)

lemma replay_reads:
  "set tr0 \<subseteq> {GetDescriptor, GetContainerVersion, GetTopLevelContainerVersion} \<Longrightarrow>
   replay effect s tr0 = s"
  by (induction tr0 arbitrary: s) (auto simp: replay_def applyEvent_def mutates_def)

text \<open>
  A try block that returns has committed, and has recorded the new container version
  once.
\<close>

lemma tryBlock_success:
  assumes "tryBlock w nap msg cv = (tr, Inr v)"
  shows "CommitTransaction msg \<in> set tr \<and> recordedVersions tr = [v]
   \<and> (\<exists>c tr0. getActiveCauldron w = Inr c \<and> newContainerVersion w c cv = (tr0, Inr v))"
proof (cases "getActiveCauldron w")
  case (Inl y)
  then show ?thesis using assms by (simp add: tryBlock_no_cauldron)
next
  case (Inr c)
  obtain tr0 r0 where n: "newContainerVersion w c cv = (tr0, r0)"
    by (cases "newContainerVersion w c cv")
  have rv: "recordedVersions tr0 = []"
    using newContainerVersion_trace [OF n] by (rule recordedVersions_reads)
  have app: "\<And>xs ys. recordedVersions (xs @ ys) = recordedVersions xs @ recordedVersions ys"
    by (simp add: recordedVersions_def)
  show ?thesis
  proof (cases r0)
    case (Inl y)
    then show ?thesis using assms Inr n by (simp add: tryBlock_def andThen_def call_def)
  next
    case r: (Inr v0)
    have "v0 = v"
      using assms Inr n r
      by (auto simp: tryBlock_def andThen_def call_def Let_def split: sum.splits)
    moreover have "CommitTransaction msg \<in> set tr"
      using assms Inr n r
      by (auto simp: tryBlock_def andThen_def call_def Let_def split: sum.splits)
    moreover have "recordedVersions tr = [v]"
      using assms Inr n r rv
      by (auto simp: tryBlock_def andThen_def call_def Let_def app split: sum.splits)
         (simp add: recordedVersions_def)
    ultimately show ?thesis using Inr n r by simp
  qed
qed

text \<open>
  A try block that throws, followed by the \<^verbatim>\<open>catch\<close>, leaves an idle store as it
  found it: whatever was changed was changed in the working copy, and that is dropped.
\<close>

lemma tryBlock_failure_store:
  assumes run: "tryBlock w nap msg cv = (tr, Inl x)"
    and idle: "working s = None"
  shows "replay effect s (tr @ [LogError m, DiscardTransaction]) = s"
proof (cases "getActiveCauldron w")
  case (Inl y)
  then show ?thesis using run idle
    by (simp add: tryBlock_no_cauldron replay_def applyEvent_def mutates_def)
next
  case (Inr c)
  obtain tr0 r0 where n: "newContainerVersion w c cv = (tr0, r0)"
    by (cases "newContainerVersion w c cv")
  have rd: "\<And>s'. foldl (applyEvent effect) s' tr0 = s'"
    using replay_reads [OF newContainerVersion_trace [OF n]] by (simp add: replay_def)
  have same_store: "s\<lparr>working := None\<rparr> = s"
    using idle by simp
  show ?thesis
  proof (cases r0)
    case (Inl y)
    then show ?thesis using run Inr n idle
      by (auto simp: tryBlock_def andThen_def call_def replay_def rd applyEvent_def mutates_def)
  next
    case r: (Inr v0)
    show ?thesis
      using run Inr n r
      by (auto simp: tryBlock_def andThen_def call_def Let_def replay_def rd
               applyEvent_def mutates_def same_store
               split: sum.splits)
  qed
qed

text \<open>
  Whenever a run reaches \<^verbatim>\<open>cauldron.syncContainerNativeDependencies\<close>, the list it hands
  over is the merge of the list the Cauldron returned and the list the composite
  resolved.
\<close>

lemma tryBlock_sync_list:
  assumes run: "tryBlock w nap msg cv = (tr, r)"
    and synced: "SyncContainerNativeDependencies ds \<in> set tr"
  shows "\<exists>c comp current res. getActiveCauldron w = Inr c
           \<and> getNativeDependencies c = Inr current
           \<and> runCauldronCompositeGen w = Inr comp
           \<and> getResolvedNativeDependencies comp = Inr res
           \<and> ds = finalNativeDependencies current (resolved res)"
proof (cases "getActiveCauldron w")
  case (Inl y)
  then show ?thesis using run synced by (simp add: tryBlock_no_cauldron)
next
  case (Inr c)
  obtain tr0 r0 where n: "newContainerVersion w c cv = (tr0, r0)"
    by (cases "newContainerVersion w c cv")
  have reads: "SyncContainerNativeDependencies ds \<notin> set tr0"
    using newContainerVersion_trace [OF n] by auto
  show ?thesis
  proof (cases r0)
    case (Inl y)
    then show ?thesis using run synced Inr n reads
      by (auto simp: tryBlock_def andThen_def call_def)
  next
    case r: (Inr v0)
    show ?thesis
      using run synced Inr n r reads
      by (auto simp: tryBlock_def andThen_def call_def Let_def split: sum.splits)
  qed
qed

lemma tryBlock_success_synced:
  assumes "tryBlock w nap msg cv = (tr, Inr v)"
  shows "\<exists>ds. SyncContainerNativeDependencies ds \<in> set tr"
proof (cases "getActiveCauldron w")
  case (Inl y)
  then show ?thesis using assms by (simp add: tryBlock_no_cauldron)
next
  case (Inr c)
  obtain tr0 r0 where n: "newContainerVersion w c cv = (tr0, r0)"
    by (cases "newContainerVersion w c cv")
  show ?thesis
  proof (cases r0)
    case (Inl y)
    then show ?thesis using assms Inr n by (simp add: tryBlock_def andThen_def call_def)
  next
    case r: (Inr v0)
    show ?thesis
      using assms Inr n r
      by (auto simp: tryBlock_def andThen_def call_def Let_def split: sum.splits)
  qed
qed

lemma syncCauldronContainer_trace:
  assumes "syncCauldronContainer w nap msg cv = (tr, r)"
    and "SyncContainerNativeDependencies ds \<in> set tr"
  shows "\<exists>before r'. tryBlock w nap msg cv = (before, r')
           \<and> SyncContainerNativeDependencies ds \<in> set before"
proof -
  have p: "truthy (platform nap)"
    using assms by (auto simp: syncCauldronContainer_def split: if_splits)
  obtain before r' where t: "tryBlock w nap msg cv = (before, r')"
    by (cases "tryBlock w nap msg cv")
  have "SyncContainerNativeDependencies ds \<in> set before"
    using assms p t
    by (cases r') (auto simp: syncCauldronContainer_def andThen_def call_def split: sum.splits)
  then show ?thesis using t by blast
qed

subsection \<open>The dependency set that is synced\<close>

text \<open>
  C2, as stated, fails in its last part. The store holds A, the composite resolves B with
  two versions; the run syncs the list A, B, B', in which the basePath of B occurs
  twice: \<^verbatim>\<open>differenceBy\<close> compares the store's entries with the discovered ones and
  removes no duplicate within either list.
\<close>

theorem syncCauldronContainer_reconciles_counterexample:
  "SyncContainerNativeDependencies [depA, depB, depB']
     \<in> set (fst (syncCauldronContainer duplicateWorld exampleDescriptor [''sync''] None))
   \<and> finalNativeDependencies [depA] [depB, depB'] = [depA, depB, depB']
   \<and> \<not> distinct (map basePath [depA, depB, depB'])"
  by (simp add: syncCauldronContainer_def tryBlock_def newContainerVersion_def andThen_def
      call_def duplicateWorld_def exampleWorld_def exampleCauldron_def exampleDescriptor_def
      truthy_def finalNativeDependencies_def differenceBy_basePath_def
      depA_def depB_def depB'_def semverInc_1_0_0)

text \<open>
  C2, amended. In every run of \<^verbatim>\<open>syncCauldronContainer\<close> that reaches
  \<^verbatim>\<open>syncContainerNativeDependencies\<close> (every run that returns does), the dependency set
  handed over is made from the set \<open>current\<close> the Cauldron returned and the set the
  composite resolved: it is exactly the discovered dependencies together with the
  current entries whose basePath is not discovered; as a list, the carried-forward
  entries in their order and unchanged, then the discovered ones. No carried-forward
  entry has the basePath of a discovered one, so a re-discovered basePath keeps its new
  entry only. The result has no basePath twice when the current set and the discovered
  set each hold a basePath at most once.
\<close>

theorem syncCauldronContainer_reconciles:
  assumes run: "syncCauldronContainer w nap msg cv = (tr, r)"
    and synced: "SyncContainerNativeDependencies ds \<in> set tr"
  shows "\<exists>c comp current res. getActiveCauldron w = Inr c
     \<and> getNativeDependencies c = Inr current
     \<and> runCauldronCompositeGen w = Inr comp
     \<and> getResolvedNativeDependencies comp = Inr res
     \<and> ds = filter (\<lambda>x. basePath x \<notin> basePath ` set (resolved res)) current @ resolved res
     \<and> set ds = set (resolved res)
                  \<union> {x \<in> set current. basePath x \<notin> basePath ` set (resolved res)}
     \<and> (\<forall>x\<in>set (filter (\<lambda>x. basePath x \<notin> basePath ` set (resolved res)) current).
           \<forall>y\<in>set (resolved res). basePath x \<noteq> basePath y)
     \<and> (distinct (map basePath current) \<and> distinct (map basePath (resolved res)) \<longrightarrow>
           distinct (map basePath ds))"
proof -
  from syncCauldronContainer_trace [OF run synced] obtain before r' where
    t: "tryBlock w nap msg cv = (before, r')"
       "SyncContainerNativeDependencies ds \<in> set before" by blast
  from tryBlock_sync_list [OF t] obtain c comp current res where
    l: "getActiveCauldron w = Inr c" "getNativeDependencies c = Inr current"
       "runCauldronCompositeGen w = Inr comp" "getResolvedNativeDependencies comp = Inr res"
       "ds = finalNativeDependencies current (resolved res)" by blast
  have form: "ds = filter (\<lambda>x. basePath x \<notin> basePath ` set (resolved res)) current @ resolved res"
    using l(5) by (simp add: finalNativeDependencies_def differenceBy_basePath_def)
  have sets: "set ds = set (resolved res)
                  \<union> {x \<in> set current. basePath x \<notin> basePath ` set (resolved res)}"
    using l(5) finalNativeDependencies_set by simp
  have apart: "\<forall>x\<in>set (filter (\<lambda>x. basePath x \<notin> basePath ` set (resolved res)) current).
           \<forall>y\<in>set (resolved res). basePath x \<noteq> basePath y"
    by auto
  have dist: "distinct (map basePath current) \<and> distinct (map basePath (resolved res)) \<longrightarrow>
           distinct (map basePath ds)"
    using l(5) finalNativeDependencies_distinct by simp
  show ?thesis using l(1-4) form sets apart dist by blast
qed

text \<open>
  Witness for the amended C2, the scenario of the specification: the store \<open>{A, B}\<close>
  and the discovery \<open>{B', C}\<close> give \<open>{A, B', C}\<close>, with no basePath twice. The run
  returns and has synced this list.
\<close>

theorem syncCauldronContainer_reconciles_witness:
  "syncCauldronContainer exampleWorld exampleDescriptor [''sync''] None =
     ([GetActiveCauldron, GetDescriptor, GetTopLevelContainerVersion, BeginTransaction,
       StateUpdateFunc, GetCompositeGeneratorConfig, CreateTmpDir, RunCauldronCompositeGen,
       GetNativeDependencies, GetResolvedNativeDependencies,
       SyncContainerNativeDependencies [depA, depB', depC],
       RunCauldronContainerGen, UpdateContainerVersion (Some ''1.0.1''),
       UpdateContainerErnVersion, AddOrUpdateYarnLock ''/tmp/composite/yarn.lock'',
       RunContainerTransformers, CommitTransaction [''sync''],
       LogInfo ''Added new container version 1.0.1 for app:android:1.0.0 in Cauldron'',
       RunContainerPublishers (Some ''1.0.1'')],
      Inr ())
   \<and> distinct (map basePath [depA, depB', depC])"
proof -
  have run: "syncCauldronContainer exampleWorld exampleDescriptor [''sync''] None =
     ([GetActiveCauldron, GetDescriptor, GetTopLevelContainerVersion, BeginTransaction,
       StateUpdateFunc, GetCompositeGeneratorConfig, CreateTmpDir, RunCauldronCompositeGen,
       GetNativeDependencies, GetResolvedNativeDependencies,
       SyncContainerNativeDependencies [depA, depB', depC],
       RunCauldronContainerGen, UpdateContainerVersion (Some ''1.0.1''),
       UpdateContainerErnVersion, AddOrUpdateYarnLock ''/tmp/composite/yarn.lock'',
       RunContainerTransformers, CommitTransaction [''sync''],
       LogInfo ''Added new container version 1.0.1 for app:android:1.0.0 in Cauldron'',
       RunContainerPublishers (Some ''1.0.1'')],
      Inr ())"
    by (simp add: syncCauldronContainer_def tryBlock_def newContainerVersion_def andThen_def
        call_def exampleWorld_def exampleCauldron_def exampleDescriptor_def truthy_def
        finalNativeDependencies_def differenceBy_basePath_def interpolateNull_def
        depA_def depB_def depB'_def depC_def semverInc_1_0_0)
  have synced: "SyncContainerNativeDependencies [depA, depB', depC] \<in> set
     [GetActiveCauldron, GetDescriptor, GetTopLevelContainerVersion, BeginTransaction,
       StateUpdateFunc, GetCompositeGeneratorConfig, CreateTmpDir, RunCauldronCompositeGen,
       GetNativeDependencies, GetResolvedNativeDependencies,
       SyncContainerNativeDependencies [depA, depB', depC],
       RunCauldronContainerGen, UpdateContainerVersion (Some ''1.0.1''),
       UpdateContainerErnVersion, AddOrUpdateYarnLock ''/tmp/composite/yarn.lock'',
       RunContainerTransformers, CommitTransaction [''sync''],
       LogInfo ''Added new container version 1.0.1 for app:android:1.0.0 in Cauldron'',
       RunContainerPublishers (Some ''1.0.1'')]"
    by simp
  have c: "getActiveCauldron exampleWorld = Inr exampleCauldron"
          "getNativeDependencies exampleCauldron = Inr [depA, depB]"
          "runCauldronCompositeGen exampleWorld
             = Inr \<lparr>getResolvedNativeDependencies = Inr \<lparr>resolved = [depB', depC]\<rparr>\<rparr>"
    by (simp_all add: exampleWorld_def exampleCauldron_def)
  have inputs: "distinct (map basePath [depA, depB])" "distinct (map basePath [depB', depC])"
    by (simp_all add: depA_def depB_def depB'_def depC_def)
  from syncCauldronContainer_reconciles [OF run synced] c inputs
  have "distinct (map basePath [depA, depB', depC])"
    by auto
  then show ?thesis using run by simp
qed

subsection \<open>The transaction is discarded on every error\<close>

text \<open>
  C7. Take a run of \<^verbatim>\<open>syncCauldronContainer\<close> that ends in an error, in which
  \<^verbatim>\<open>beginTransaction\<close> has returned and \<^verbatim>\<open>commitTransaction\<close> has not. Then the error
  was thrown inside the try block, and the run ends with the \<^verbatim>\<open>catch\<close>: the error is
  logged, \<^verbatim>\<open>discardTransaction\<close> is called, and only then the same error goes to the
  caller. On the store of the specification nothing is persisted: replaying the run on
  an idle store gives that store back, with no transaction open.
\<close>

theorem syncCauldronContainer_discards:
  assumes run: "syncCauldronContainer w nap msg cv = (tr, Inl x)"
    and begun: "BeginTransaction \<in> set tr"
    and uncommitted: "CommitTransaction msg \<notin> set tr"
  shows "(\<exists>before. tryBlock w nap msg cv = (before, Inl x)
            \<and> tr = before @ [LogError (''[syncCauldronContainer] An error occurred: ''
                                        @ exnToString x), DiscardTransaction])
       \<and> (working s = None \<longrightarrow> replay effect s tr = s)"
proof -
  have p: "truthy (platform nap)"
    using run begun by (auto simp: syncCauldronContainer_def split: if_splits)
  obtain before r where t: "tryBlock w nap msg cv = (before, r)"
    by (cases "tryBlock w nap msg cv")
  show ?thesis
  proof (cases r)
    case (Inr v)
    have "CommitTransaction msg \<in> set before"
      using tryBlock_success [OF t [unfolded Inr]] by simp
    then have "CommitTransaction msg \<in> set tr"
      using run p t Inr
      by (auto simp: syncCauldronContainer_def andThen_def call_def split: sum.splits)
    with uncommitted show ?thesis by simp
  next
    case (Inl y)
    have xy: "y = x"
      and tr: "tr = before @ LogError (''[syncCauldronContainer] An error occurred: ''
                   @ exnToString x)
                 # (case getActiveCauldron w of Inr c \<Rightarrow> [DiscardTransaction] | Inl z \<Rightarrow> [])"
      using run p t Inl by (auto simp: syncCauldronContainer_def)
    have "before \<noteq> []"
      using begun tr by (auto split: sum.splits)
    then obtain c where c: "getActiveCauldron w = Inr c"
      using tryBlock_failure_cauldron [OF t [unfolded Inl]] by blast
    have tr': "tr = before @ [LogError (''[syncCauldronContainer] An error occurred: ''
                   @ exnToString x), DiscardTransaction]"
      using tr c by simp
    have "working s = None \<longrightarrow> replay effect s tr = s"
      using tryBlock_failure_store [OF t [unfolded Inl], of s effect] tr' by simp
    then show ?thesis using t Inl xy tr' by simp
  qed
qed

text \<open>
  Witness for C7: the container generation throws after the dependency set
  \<open>{A, B', C}\<close> has been synced inside the transaction. The run ends with the logged
  error and the discard, and the store still holds \<open>{A, B}\<close>.
\<close>

theorem syncCauldronContainer_discards_witness:
  "syncCauldronContainer failingWorld exampleDescriptor [''sync''] None =
     ([GetActiveCauldron, GetDescriptor, GetTopLevelContainerVersion, BeginTransaction,
       StateUpdateFunc, GetCompositeGeneratorConfig, CreateTmpDir, RunCauldronCompositeGen,
       GetNativeDependencies, GetResolvedNativeDependencies,
       SyncContainerNativeDependencies [depA, depB', depC],
       LogError ''[syncCauldronContainer] An error occurred: Error: container generation failed'',
       DiscardTransaction],
      Inl (Error ''container generation failed''))
   \<and> replay dependencySetEffect \<lparr>persisted = [depA, depB], working = None\<rparr>
        (fst (syncCauldronContainer failingWorld exampleDescriptor [''sync''] None))
      = \<lparr>persisted = [depA, depB], working = None\<rparr>"
proof -
  have run: "syncCauldronContainer failingWorld exampleDescriptor [''sync''] None =
     ([GetActiveCauldron, GetDescriptor, GetTopLevelContainerVersion, BeginTransaction,
       StateUpdateFunc, GetCompositeGeneratorConfig, CreateTmpDir, RunCauldronCompositeGen,
       GetNativeDependencies, GetResolvedNativeDependencies,
       SyncContainerNativeDependencies [depA, depB', depC],
       LogError ''[syncCauldronContainer] An error occurred: Error: container generation failed'',
       DiscardTransaction],
      Inl (Error ''container generation failed''))"
    by (simp add: syncCauldronContainer_def tryBlock_def newContainerVersion_def andThen_def
        call_def failingWorld_def exampleWorld_def exampleCauldron_def exampleDescriptor_def
        truthy_def exnToString_def errorName_def errorMessage_def finalNativeDependencies_def
        differenceBy_basePath_def
        depA_def depB_def depB'_def depC_def)
  have begun: "BeginTransaction \<in> set
      [GetActiveCauldron, GetDescriptor, GetTopLevelContainerVersion, BeginTransaction,
       StateUpdateFunc, GetCompositeGeneratorConfig, CreateTmpDir, RunCauldronCompositeGen,
       GetNativeDependencies, GetResolvedNativeDependencies,
       SyncContainerNativeDependencies [depA, depB', depC],
       LogError ''[syncCauldronContainer] An error occurred: Error: container generation failed'',
       DiscardTransaction]"
    by simp
  have uncommitted: "CommitTransaction [''sync''] \<notin> set
      [GetActiveCauldron, GetDescriptor, GetTopLevelContainerVersion, BeginTransaction,
       StateUpdateFunc, GetCompositeGeneratorConfig, CreateTmpDir, RunCauldronCompositeGen,
       GetNativeDependencies, GetResolvedNativeDependencies,
       SyncContainerNativeDependencies [depA, depB', depC],
       LogError ''[syncCauldronContainer] An error occurred: Error: container generation failed'',
       DiscardTransaction]"
    by simp
  have idle: "working \<lparr>persisted = [depA, depB], working = None\<rparr> = None"
    by simp
  from syncCauldronContainer_discards [OF run begun uncommitted,
          of "\<lparr>persisted = [depA, depB], working = None\<rparr>" dependencySetEffect]
  have "working \<lparr>persisted = [depA, depB], working = None\<rparr> = None \<longrightarrow>
        replay dependencySetEffect \<lparr>persisted = [depA, depB], working = None\<rparr>
          (fst (syncCauldronContainer failingWorld exampleDescriptor [''sync''] None))
        = \<lparr>persisted = [depA, depB], working = None\<rparr>"
    unfolding run fst_conv by (rule conjunct2)
  with idle run show ?thesis by blast
qed

subsection \<open>The recorded container version\<close>

text \<open>
  C8, as stated, fails. The stored container version is the prerelease 1.0.0-beta.1 and
  the caller gives no version: the run returns and records 1.0.0. The patch component,
  0, has not been incremented; the patch bump of a prerelease drops the tag and keeps
  the number. With \<^verbatim>\<open>latest\<close> stored, which is no semantic version, the run returns
  and records \<^verbatim>\<open>null\<close>. (With the release 1.0.0 stored, 1.0.1 is recorded.)
\<close>

theorem syncCauldronContainer_version_counterexample:
  "snd (syncCauldronContainer prereleaseWorld exampleDescriptor [''sync''] None) = Inr ()
   \<and> recordedVersions (fst (syncCauldronContainer prereleaseWorld exampleDescriptor [''sync''] None))
       = [Some ''1.0.0'']
   \<and> snd (syncCauldronContainer latestWorld exampleDescriptor [''sync''] None) = Inr ()
   \<and> recordedVersions (fst (syncCauldronContainer latestWorld exampleDescriptor [''sync''] None))
       = [None]
   \<and> getTopLevelContainerVersion exampleCauldron = Inr (Some ''1.0.0'')
   \<and> recordedVersions (fst (syncCauldronContainer exampleWorld exampleDescriptor [''sync''] None))
       = [Some ''1.0.1'']"
  by (simp add: syncCauldronContainer_def tryBlock_def newContainerVersion_def andThen_def
      call_def prereleaseWorld_def latestWorld_def exampleWorld_def exampleCauldron_def
      exampleDescriptor_def truthy_def recordedVersions_def semverInc_beta semverInc_1_0_0
      semverInc_latest)

text \<open>
  C8, amended. In every run of \<^verbatim>\<open>syncCauldronContainer\<close> that returns, the container
  version is recorded once (\<^verbatim>\<open>updateContainerVersion\<close> is called once). When the caller
  gives a version (a non-empty string) that version is recorded. Otherwise the stored
  version is read (the container's own when the version is detached from the root, else
  the top-level one) and the recorded version is \<^verbatim>\<open>semver.inc(stored, 'patch')\<close>:
  for a stored release \<^verbatim>\<open>X.Y.Z\<close> it is \<^verbatim>\<open>X.Y.(Z+1)\<close>; for a stored prerelease
  \<^verbatim>\<open>X.Y.Z-tag\<close> it is \<^verbatim>\<open>X.Y.Z\<close>, the patch number not incremented; for a stored
  string that is no semantic version it is \<^verbatim>\<open>null\<close>. It is 1.0.0 when no version, or
  the empty string, is stored.
\<close>

theorem syncCauldronContainer_version:
  assumes run: "syncCauldronContainer w nap msg cv = (tr, Inr u)"
  shows "(truthy cv \<longrightarrow> recordedVersions tr = [cv])
       \<and> (\<not> truthy cv \<longrightarrow>
            (\<exists>c napVersion stored. getActiveCauldron w = Inr c
               \<and> getDescriptor c = Inr napVersion
               \<and> (if detachContainerVersionFromRoot napVersion
                   then getContainerVersion c else getTopLevelContainerVersion c) = Inr stored
               \<and> (stored = None \<or> stored = Some [] \<longrightarrow> recordedVersions tr = [Some ''1.0.0''])
               \<and> (\<forall>s. stored = Some s \<and> s \<noteq> [] \<longrightarrow> recordedVersions tr = [semverInc s])
               \<and> (\<forall>major minor patch.
                     stored = Some (release major minor patch)
                     \<and> major \<le> MAX_SAFE_INTEGER \<and> minor \<le> MAX_SAFE_INTEGER
                     \<and> patch \<le> MAX_SAFE_INTEGER \<longrightarrow>
                     recordedVersions tr = [Some (release major minor (patch + 1))])
               \<and> (\<forall>major minor patch pre.
                     stored = Some (release major minor patch @ ''-'' @ pre)
                     \<and> major \<le> MAX_SAFE_INTEGER \<and> minor \<le> MAX_SAFE_INTEGER
                     \<and> patch \<le> MAX_SAFE_INTEGER
                     \<and> pre \<noteq> [] \<and> list_all prereleaseIdentifier (splitOn (CHR ''.'') pre)
                     \<and> length pre \<le> 200 \<longrightarrow>
                     recordedVersions tr = [Some (release major minor patch)])
               \<and> (\<forall>s. stored = Some s \<and> s \<noteq> [] \<and> semverParse s = None \<longrightarrow>
                     recordedVersions tr = [None])))"
proof -
  have p: "truthy (platform nap)"
    using run by (auto simp: syncCauldronContainer_def split: if_splits)
  obtain before r where t: "tryBlock w nap msg cv = (before, r)"
    by (cases "tryBlock w nap msg cv")
  show ?thesis
  proof (cases r)
    case (Inl y)
    then show ?thesis using run p t by (simp add: syncCauldronContainer_def)
  next
    case (Inr v)
    from tryBlock_success [OF t [unfolded Inr]] obtain c tr0 where
      s: "recordedVersions before = [v]" "getActiveCauldron w = Inr c"
         "newContainerVersion w c cv = (tr0, Inr v)" by blast
    have "tr = before @ [RunContainerPublishers v]"
      using run p t Inr
      by (auto simp: syncCauldronContainer_def andThen_def call_def split: sum.splits)
    then have rv: "recordedVersions tr = [v]"
      using s(1) by (simp add: recordedVersions_def)
    note nv = newContainerVersion_result [OF s(3)]
    show ?thesis
    proof (cases "truthy cv")
      case True
      then show ?thesis using nv rv by simp
    next
      case False
      with nv obtain napVersion stored where
        st: "getDescriptor c = Inr napVersion"
            "(if detachContainerVersionFromRoot napVersion
              then getContainerVersion c else getTopLevelContainerVersion c) = Inr stored"
            "v = (case stored of
                    None \<Rightarrow> Some ''1.0.0''
                  | Some s \<Rightarrow> if s \<noteq> [] then semverInc s else Some ''1.0.0'')"
        by blast
      have 1: "stored = None \<or> stored = Some [] \<longrightarrow> recordedVersions tr = [Some ''1.0.0'']"
        using st(3) rv by auto
      have 2: "\<forall>s. stored = Some s \<and> s \<noteq> [] \<longrightarrow> recordedVersions tr = [semverInc s]"
        using st(3) rv by auto
      have 3: "\<forall>major minor patch.
                     stored = Some (release major minor patch)
                     \<and> major \<le> MAX_SAFE_INTEGER \<and> minor \<le> MAX_SAFE_INTEGER
                     \<and> patch \<le> MAX_SAFE_INTEGER \<longrightarrow>
                     recordedVersions tr = [Some (release major minor (patch + 1))]"
        using 2 semverInc_release release_nonempty by (metis Suc_eq_plus1)
      have 4: "\<forall>major minor patch pre.
                     stored = Some (release major minor patch @ ''-'' @ pre)
                     \<and> major \<le> MAX_SAFE_INTEGER \<and> minor \<le> MAX_SAFE_INTEGER
                     \<and> patch \<le> MAX_SAFE_INTEGER
                     \<and> pre \<noteq> [] \<and> list_all prereleaseIdentifier (splitOn (CHR ''.'') pre)
                     \<and> length pre \<le> 200 \<longrightarrow>
                     recordedVersions tr = [Some (release major minor patch)]"
        using 2 semverInc_prerelease by (metis append_is_Nil_conv)
      have 5: "\<forall>s. stored = Some s \<and> s \<noteq> [] \<and> semverParse s = None \<longrightarrow>
                     recordedVersions tr = [None]"
      proof (intro allI impI)
        fix s
        assume a: "stored = Some s \<and> s \<noteq> [] \<and> semverParse s = None"
        then have "semverInc s = None" by (simp add: semverInc_def)
        then show "recordedVersions tr = [None]" using 2 a by simp
      qed
      show ?thesis using False s(2) st(1,2) 1 2 3 4 5 by blast
    qed
  qed
qed

text \<open>
  Witness for the amended C8: with the release 1.0.0 stored at the top level and no
  version from the caller, 1.0.1 is recorded; with the version 3.0.0 from the caller,
  3.0.0 is recorded.
\<close>

theorem syncCauldronContainer_version_witness:
  "recordedVersions (fst (syncCauldronContainer exampleWorld exampleDescriptor [''sync''] None))
     = [Some (release 1 0 1)]
   \<and> release 1 0 1 = ''1.0.1''
   \<and> recordedVersions
       (fst (syncCauldronContainer exampleWorld exampleDescriptor [''sync''] (Some ''3.0.0'')))
     = [Some ''3.0.0'']"
proof -
  have run1: "syncCauldronContainer exampleWorld exampleDescriptor [''sync''] None =
     (fst (syncCauldronContainer exampleWorld exampleDescriptor [''sync''] None), Inr ())"
    by (simp add: syncCauldronContainer_def tryBlock_def newContainerVersion_def andThen_def
        call_def exampleWorld_def exampleCauldron_def exampleDescriptor_def truthy_def)
  have run2: "syncCauldronContainer exampleWorld exampleDescriptor [''sync''] (Some ''3.0.0'') =
     (fst (syncCauldronContainer exampleWorld exampleDescriptor [''sync''] (Some ''3.0.0'')),
      Inr ())"
    by (simp add: syncCauldronContainer_def tryBlock_def newContainerVersion_def andThen_def
        call_def exampleWorld_def exampleCauldron_def exampleDescriptor_def truthy_def)
  have c: "getActiveCauldron exampleWorld = Inr exampleCauldron"
    by (simp add: exampleWorld_def)
  have d: "getDescriptor exampleCauldron = Inr \<lparr>detachContainerVersionFromRoot = False\<rparr>"
          "getTopLevelContainerVersion exampleCauldron = Inr (Some (release 1 0 0))"
    by (simp_all add: exampleCauldron_def release_def showNat.simps digitChar_def)
  have safe: "(1::nat) \<le> MAX_SAFE_INTEGER" "(0::nat) \<le> MAX_SAFE_INTEGER"
    by (simp_all add: MAX_SAFE_INTEGER_def)
  have r101: "release 1 0 1 = ''1.0.1''"
    by (simp add: release_def showNat.simps digitChar_def)
  have 1: "recordedVersions (fst (syncCauldronContainer exampleWorld exampleDescriptor [''sync''] None))
     = [Some (release 1 0 1)]"
    using syncCauldronContainer_version [OF run1] c d safe
    by (auto simp: truthy_def)
  have 2: "recordedVersions
       (fst (syncCauldronContainer exampleWorld exampleDescriptor [''sync''] (Some ''3.0.0'')))
     = [Some ''3.0.0'']"
    using syncCauldronContainer_version [OF run2]
    by (auto simp: truthy_def)
  show ?thesis using 1 2 r101 by simp
qed

end
